theory Spec2Isabelle
  imports Complex_Main "HOL-Library.Word" "HOL-Library.Signed_Division"
begin

section \<open>JavaScript values and primitives used by the request handlers\<close>

text \<open>
  Exceptions a handler's \<open>try\<close> block can see. \<open>RangeError\<close>, \<open>SyntaxError\<close> and
  \<open>TypeError\<close> are raised by the language primitives (\<open>BigInt\<close>, BigInt division,
  \<open>Buffer.readUInt32LE\<close>); \<open>Thrown msg\<close> is an error raised by a collaborator
  (RPC client, address derivation, instruction encoder, HTTP bridge).
\<close>

datatype js_exception = RangeError | SyntaxError | TypeError | Thrown string

text \<open>
  A JavaScript number is a finite value, \<open>NaN\<close> or an infinity. The handlers only test
  numbers for truthiness and pass them through \<open>Math.trunc\<close>, both of which are exact,
  so a finite number is modelled by the rational it denotes.
\<close>

datatype js_number = Finite rat | NaN | PosInfinity | NegInfinity

text \<open>The declared type of an amount field: \<open>string | number | bigint\<close>.\<close>

datatype js_amount = NumberVal js_number | StringVal string | BigIntVal int

text \<open>
  JavaScript truthiness, for an optional amount field (\<open>None\<close> is \<open>undefined\<close>):
  \<open>undefined\<close>, \<open>0\<close>, \<open>NaN\<close>, \<open>""\<close> and \<open>0n\<close> are falsy.
\<close>

fun truthy :: "js_amount option \<Rightarrow> bool" where
  "truthy None = False"
| "truthy (Some (NumberVal (Finite q))) = (q \<noteq> 0)"
| "truthy (Some (NumberVal NaN)) = False"
| "truthy (Some (NumberVal PosInfinity)) = True"
| "truthy (Some (NumberVal NegInfinity)) = True"
| "truthy (Some (StringVal s)) = (s \<noteq> [])"
| "truthy (Some (BigIntVal n)) = (n \<noteq> 0)"

text \<open>\<open>Math.trunc\<close> on a finite number: the integer part, rounding toward zero.\<close>

definition math_trunc :: "rat \<Rightarrow> int" where
  "math_trunc q = (if 0 \<le> q then \<lfloor>q\<rfloor> else \<lceil>q\<rceil>)"

subsection \<open>\<open>BigInt(string)\<close>\<close>

text \<open>
  \<open>BigInt\<close> applied to a string trims white space, reads the empty string as \<open>0n\<close>,
  accepts an optionally signed run of decimal digits or an unsigned \<open>0x\<close>, \<open>0o\<close>,
  \<open>0b\<close> literal, and raises \<open>SyntaxError\<close> on anything else. Strings are sequences
  of 8-bit characters here, so of the white-space characters only those below 256 appear.
\<close>

definition isStrWhiteSpaceChar :: "char \<Rightarrow> bool" where
  "isStrWhiteSpaceChar c \<longleftrightarrow> (of_char c :: nat) \<in> {9, 10, 11, 12, 13, 32, 160}"

definition trimString :: "string \<Rightarrow> string" where
  "trimString s = rev (dropWhile isStrWhiteSpaceChar (rev (dropWhile isStrWhiteSpaceChar s)))"

definition digitValue :: "char \<Rightarrow> nat option" where
  "digitValue c =
     (let n = (of_char c :: nat) in
      if 48 \<le> n \<and> n \<le> 57 then Some (n - 48)
      else if 97 \<le> n \<and> n \<le> 102 then Some (n - 87)
      else if 65 \<le> n \<and> n \<le> 70 then Some (n - 55)
      else None)"

fun parseDigitsFrom :: "nat \<Rightarrow> nat \<Rightarrow> string \<Rightarrow> nat option" where
  "parseDigitsFrom radix acc [] = Some acc"
| "parseDigitsFrom radix acc (c # cs) =
     (case digitValue c of
        None \<Rightarrow> None
      | Some d \<Rightarrow> if d < radix then parseDigitsFrom radix (acc * radix + d) cs else None)"

definition parseDigits :: "nat \<Rightarrow> string \<Rightarrow> nat option" where
  "parseDigits radix cs = (if cs = [] then None else parseDigitsFrom radix 0 cs)"

definition StringToBigInt :: "string \<Rightarrow> int option" where
  "StringToBigInt s =
     (let t = trimString s in
      if t = [] then Some 0
      else if take 2 t = ''0x'' \<or> take 2 t = ''0X'' then map_option int (parseDigits 16 (drop 2 t))
      else if take 2 t = ''0o'' \<or> take 2 t = ''0O'' then map_option int (parseDigits 8 (drop 2 t))
      else if take 2 t = ''0b'' \<or> take 2 t = ''0B'' then map_option int (parseDigits 2 (drop 2 t))
      else if take 1 t = ''-'' then map_option (\<lambda>n. - int n) (parseDigits 10 (drop 1 t))
      else if take 1 t = ''+'' then map_option int (parseDigits 10 (drop 1 t))
      else map_option int (parseDigits 10 t))"

subsection \<open>\<open>toBigInt\<close>\<close>

text \<open>
  \<^verbatim>\<open>
  function toBigInt(value: string | number | bigint): bigint {
    if (typeof value === "bigint") return value;
    if (typeof value === "number") return BigInt(Math.trunc(value));
    return BigInt(value);
  }
  \<close>
  \<open>BigInt\<close> of \<open>NaN\<close> or of an infinity raises \<open>RangeError\<close>; of a string that is
  not an integer literal, \<open>SyntaxError\<close>.
\<close>

fun toBigInt :: "js_amount \<Rightarrow> js_exception + int" where
  "toBigInt (BigIntVal n) = Inr n"
| "toBigInt (NumberVal (Finite q)) = Inr (math_trunc q)"
| "toBigInt (NumberVal NaN) = Inl RangeError"
| "toBigInt (NumberVal PosInfinity) = Inl RangeError"
| "toBigInt (NumberVal NegInfinity) = Inl RangeError"
| "toBigInt (StringVal s) =
     (case StringToBigInt s of None \<Rightarrow> Inl SyntaxError | Some n \<Rightarrow> Inr n)"

text \<open>
  BigInt division \<open>a / b\<close>: the quotient truncated toward zero; \<open>RangeError\<close> when the
  divisor is \<open>0n\<close>.
\<close>

definition bigint_div :: "int \<Rightarrow> int \<Rightarrow> js_exception + int" where
  "bigint_div a b = (if b = 0 then Inl RangeError else Inr (sgn a * sgn b * (\<bar>a\<bar> div \<bar>b\<bar>)))"

definition LAMPORTS_PER_SOL :: int where
  "LAMPORTS_PER_SOL = 1000000000"

definition SYSTEM_PROGRAM_ID :: string where
  "SYSTEM_PROGRAM_ID = ''11111111111111111111111111111111''"


section \<open>Data model\<close>

text \<open>
  Modelled from the spec: the enumeration \<open>LaunchpadStatus\<close> of the generated client
  (\<open>dist/js-client\<close>), whose declaration is not among the sources. The spec gives its
  members as Trading, Transition, Safe; \<open>LaunchpadStatus[status]\<close> is the member's name.
\<close>

datatype LaunchpadStatus = Trading | Transition | Safe

fun statusName :: "LaunchpadStatus \<Rightarrow> string" where
  "statusName Trading = ''Trading''"
| "statusName Transition = ''Transition''"
| "statusName Safe = ''Safe''"

text \<open>
  Modelled from the spec: the decoded account \<open>LaunchpadState\<close> of the generated client,
  with the fields the handlers read. The numeric fields are unsigned integers delivered
  as bigints; \<open>mint\<close> and \<open>tokenVault\<close> are options (\<open>__option === 'Some'\<close>).
\<close>

record launchpad_state =
  status :: LaunchpadStatus
  virtualSolReserves :: nat
  virtualTokenReserves :: nat
  k :: nat
  mint :: "string option"
  tokenVault :: "string option"
  solRaised :: nat
  tokensSold :: nat
  solRaiseTarget :: nat
  tokensForSale :: nat
  platformAuthority :: string

text \<open>One entry of an instruction's account list: \<open>{ pubkey, isSigner, isWritable }\<close>.\<close>

record account_meta =
  pubkey :: string
  isSigner :: bool
  isWritable :: bool

text \<open>The instruction object returned to the client: \<open>{ programId, keys, data }\<close>.\<close>

record instruction =
  programId :: string
  keys :: "account_meta list"
  data :: string

text \<open>A seed of a program-derived address: a literal tag or an encoded address.\<close>

datatype seed = SeedText string | SeedAddress string

text \<open>The graduate route's \<open>TransactionInstruction\<close> (its data are the raw bytes).\<close>

record transaction_instruction =
  txProgramId :: string
  txKeys :: "account_meta list"
  txData :: "8 word list"

text \<open>The signed transaction handed to \<open>sendAndConfirmTransaction\<close>.\<close>

record transaction =
  instructions :: "transaction_instruction list"
  recentBlockhash :: string
  lastValidBlockHeight :: nat
  feePayer :: string
  signers :: "string list"

text \<open>
  The body posted to the document-generation bridge. The campaign part is fixed sample
  data (plus a floating-point rendering of \<open>solRaiseTarget\<close>) and is left out.
\<close>

record bridge_payload =
  bpSolRaised :: nat
  bpTokensSold :: nat
  bpSolTarget :: nat
  bpTokensForSale :: nat
  bpLaunchpadAddress :: string

text \<open>
  The reply of the bridge: \<open>response.ok\<close> false with a text body, or a JSON body whose
  \<open>pdfUrl\<close> and \<open>filename\<close> may be missing.
\<close>

datatype bridge_reply = NotOk string | OkJson "string option" "string option"

text \<open>
  The collaborators of the handlers, and the constants the sources import from packages
  that are not part of the repository. A collaborator that can fail returns
  \<open>Inl\<close> of the exception it raises. \<open>address s\<close> returns \<open>s\<close> itself or raises:
  the field gives the exception, if any. \<open>platformAuthorityPublicKey\<close> is the base58
  address of the key pair loaded at start-up.
\<close>

record env =
  LAUNCHPAD_PROGRAM_ADDRESS :: string
  TOKEN_PROGRAM_ID :: string
  ASSOCIATED_TOKEN_PROGRAM :: string
  fetchMaybeLaunchpadState :: "string \<Rightarrow> js_exception + launchpad_state option"
  getProgramDerivedAddress :: "string \<Rightarrow> seed list \<Rightarrow> js_exception + string"
  getAssociatedTokenAddress :: "string \<Rightarrow> string \<Rightarrow> js_exception + string"
  encodeBuyToken :: "int \<Rightarrow> js_exception + 8 word list"
  encodeSellToken :: "int \<Rightarrow> js_exception + 8 word list"
  encodeGraduateToSafe :: "js_exception + 8 word list"
  bufferToBase64 :: "8 word list \<Rightarrow> string"
  address :: "string \<Rightarrow> js_exception option"
  platformAuthorityPublicKey :: string
  getLatestBlockhash :: "js_exception + string \<times> nat"
  sendAndConfirmTransaction :: "transaction \<Rightarrow> js_exception + string"
  postGenerateSafe :: "bridge_payload \<Rightarrow> js_exception + bridge_reply"

text \<open>
  What a handler does besides answering: network calls, in order, and the two
  \<open>console.log\<close> calls that print the swap calculation (label and the logged numbers).
\<close>

datatype event =
    FetchState string
  | GetLatestBlockhash
  | SendAndConfirm transaction
  | BridgeCall bridge_payload
  | ConsoleLog string "(string \<times> int) list"

text \<open>
  The answer of a handler. \<open>ErrorResponse c msg\<close> is \<open>res.status(c).json({ error: msg })\<close>;
  \<open>Caught e\<close> is the \<open>catch\<close> block's \<open>res.status(500).json({ error: err.message })\<close>
  for the exception \<open>e\<close>; the other constructors are the \<open>200\<close> answers of the routes:
  the buy instruction with the two amounts of its \<open>debug\<close> part, the sell instruction,
  the graduation (signature, state address, previous and new status), the generated
  document (state address, \<open>pdfUrl\<close>, \<open>filename\<close>), the cached document, the polled
  document (status name, \<open>statusChanged\<close>, \<open>pdfUrl\<close>, \<open>filename\<close>) and the polled status
  that needs no action. Fields that only echo the request or the fetched account in an
  answer (\<open>received\<close>, \<open>expected\<close>, \<open>actual\<close>, \<open>details\<close>, \<open>stack\<close>, \<open>info\<close>) are left out.
\<close>

datatype response =
    ErrorResponse nat string
  | Caught js_exception
  | BuyBuilt instruction int int
  | SellBuilt instruction
  | Graduated string string string string
  | SafeGenerated string "string option" "string option"
  | SafeAlreadyGenerated "string \<times> string"
  | SafeChecked string bool "string option" "string option"
  | NoActionNeeded string

text \<open>\<open>toBase64\<close>: the bytes as a \<open>Uint8Array\<close>, rendered by \<open>Buffer\<close> in base64.\<close>

definition toBase64 :: "env \<Rightarrow> 8 word list \<Rightarrow> string" where
  "toBase64 e bytes = bufferToBase64 e bytes"

section \<open>POST /buy\<close>

record buy_request_body =
  buyLaunchpadStateAddress :: "string option"
  buySolAmount :: "js_amount option"
  buyBuyer :: "string option"

text \<open>
  The account list of the buy instruction, in the order the handler writes it.
\<close>

definition buyTokenKeys ::
  "env \<Rightarrow> string \<Rightarrow> string \<Rightarrow> string \<Rightarrow> string \<Rightarrow> string \<Rightarrow> string \<Rightarrow> string
     \<Rightarrow> account_meta list" where
  "buyTokenKeys e launchpadStateAddress launchpadAuthority solVault tokenVaultAddress
       mintAddress buyer buyerTokenAccountAddress =
     [ \<lparr>pubkey = launchpadStateAddress, isSigner = False, isWritable = True\<rparr>,
       \<lparr>pubkey = launchpadAuthority, isSigner = False, isWritable = False\<rparr>,
       \<lparr>pubkey = solVault, isSigner = False, isWritable = True\<rparr>,
       \<lparr>pubkey = tokenVaultAddress, isSigner = False, isWritable = True\<rparr>,
       \<lparr>pubkey = mintAddress, isSigner = False, isWritable = True\<rparr>,
       \<lparr>pubkey = buyer, isSigner = True, isWritable = True\<rparr>,
       \<lparr>pubkey = buyerTokenAccountAddress, isSigner = False, isWritable = True\<rparr>,
       \<lparr>pubkey = SYSTEM_PROGRAM_ID, isSigner = False, isWritable = False\<rparr>,
       \<lparr>pubkey = TOKEN_PROGRAM_ID e, isSigner = False, isWritable = False\<rparr>,
       \<lparr>pubkey = ASSOCIATED_TOKEN_PROGRAM e, isSigner = False, isWritable = False\<rparr> ]"

text \<open>
  Steps 4 and 5 of the handler: derive the launchpad authority, the SOL vault and the
  buyer's associated token account, encode the data, list the accounts, answer.
\<close>

definition buyBuild ::
  "env \<Rightarrow> string \<Rightarrow> string \<Rightarrow> string \<Rightarrow> string \<Rightarrow> int \<Rightarrow> int \<Rightarrow> response" where
  "buyBuild e launchpadStateAddress buyer mintAddress tokenVaultAddress
       tokenAmountWithDecimals tokenAmount =
     (case getProgramDerivedAddress e (LAUNCHPAD_PROGRAM_ADDRESS e)
             [SeedText ''launchpad_authority'', SeedAddress launchpadStateAddress] of
        Inl ex \<Rightarrow> Caught ex
      | Inr launchpadAuthority \<Rightarrow>
     (case getProgramDerivedAddress e (LAUNCHPAD_PROGRAM_ADDRESS e)
             [SeedText ''sol_vault'', SeedAddress launchpadStateAddress] of
        Inl ex \<Rightarrow> Caught ex
      | Inr solVault \<Rightarrow>
     (case getAssociatedTokenAddress e mintAddress buyer of
        Inl ex \<Rightarrow> Caught ex
      | Inr buyerTokenAccountAddress \<Rightarrow>
     (case encodeBuyToken e tokenAmount of
        Inl ex \<Rightarrow> Caught ex
      | Inr buyTokenData \<Rightarrow>
          BuyBuilt
            \<lparr>programId = LAUNCHPAD_PROGRAM_ADDRESS e,
             keys = buyTokenKeys e launchpadStateAddress launchpadAuthority solVault
                      tokenVaultAddress mintAddress buyer buyerTokenAccountAddress,
             data = toBase64 e buyTokenData\<rparr>
            tokenAmountWithDecimals tokenAmount))))"

text \<open>
  The handler's \<open>tokenAmountWithDecimals\<close>:
  \<open>(solAmountLamports * virtualTokenReserves) / (virtualSolReserves + solAmountLamports)\<close>.
\<close>

definition buyTokenAmountWithDecimals :: "int \<Rightarrow> int \<Rightarrow> int \<Rightarrow> js_exception + int" where
  "buyTokenAmountWithDecimals vSol vTok solAmountLamports =
     bigint_div (solAmountLamports * vTok) (vSol + solAmountLamports)"

text \<open>
  Steps 2 and 3 of the handler, on the fetched account: read the reserves and \<open>k\<close>,
  convert the SOL amount to lamports, refuse zero reserves, compute
  \<open>(solAmountLamports * virtualTokenReserves) / (virtualSolReserves + solAmountLamports)\<close>,
  refuse a result \<open>\<le> 0n\<close>, divide by \<open>1_000_000n\<close>, log, and build.
\<close>

definition buyOnState ::
  "env \<Rightarrow> string \<Rightarrow> js_amount \<Rightarrow> string \<Rightarrow> launchpad_state \<Rightarrow> response \<times> event list" where
  "buyOnState e launchpadStateAddress solAmount buyer launchpadData =
     (case (mint launchpadData, tokenVault launchpadData) of
        (Some mintAddress, Some tokenVaultAddress) \<Rightarrow>
          (case toBigInt (BigIntVal (int (virtualSolReserves launchpadData))) of
             Inl ex \<Rightarrow> (Caught ex, [])
           | Inr vSol \<Rightarrow>
          (case toBigInt (BigIntVal (int (virtualTokenReserves launchpadData))) of
             Inl ex \<Rightarrow> (Caught ex, [])
           | Inr vTok \<Rightarrow>
          (case toBigInt (BigIntVal (int (k launchpadData))) of
             Inl ex \<Rightarrow> (Caught ex, [])
           | Inr kk \<Rightarrow>
          (case toBigInt solAmount of
             Inl ex \<Rightarrow> (Caught ex, [])
           | Inr sol \<Rightarrow>
             let solAmountLamports = sol * LAMPORTS_PER_SOL in
             if vSol = 0 \<or> vTok = 0
             then (ErrorResponse 400 ''Invalid launchpad state: Virtual reserves are zero.'', [])
             else
               (case buyTokenAmountWithDecimals vSol vTok solAmountLamports of
                  Inl ex \<Rightarrow> (Caught ex, [])
                | Inr tokenAmountWithDecimals \<Rightarrow>
                    if tokenAmountWithDecimals \<le> 0
                    then (ErrorResponse 400 ''SOL amount is too low to purchase any tokens.'', [])
                    else
                      (case bigint_div tokenAmountWithDecimals 1000000 of
                         Inl ex \<Rightarrow> (Caught ex, [])
                       | Inr tokenAmount \<Rightarrow>
                           (buyBuild e launchpadStateAddress buyer mintAddress tokenVaultAddress
                              tokenAmountWithDecimals tokenAmount,
                            [ConsoleLog ''Buy instruction calculation:''
                               [(''solAmountLamports'', solAmountLamports),
                                (''virtualSolReserves'', vSol),
                                (''virtualTokenReserves'', vTok),
                                (''k'', kk),
                                (''tokenAmountWithDecimals'', tokenAmountWithDecimals),
                                (''calculatedTokenAmount'', tokenAmount)]])))))))
      | _ \<Rightarrow> (ErrorResponse 400 ''Token mint or vault not initialized in launchpad data'', []))"

text \<open>
  The handler: the required fields in order, the fetch of the account, then the steps
  above. The events of the fetch come first.
\<close>

definition buy :: "env \<Rightarrow> buy_request_body \<Rightarrow> response \<times> event list" where
  "buy e body =
     (case buyLaunchpadStateAddress body of
        None \<Rightarrow> (ErrorResponse 400 ''Missing field: launchpadStateAddress'', [])
      | Some launchpadStateAddress \<Rightarrow>
     (case buySolAmount body of
        None \<Rightarrow> (ErrorResponse 400 ''Missing field: solAmount'', [])
      | Some solAmount \<Rightarrow>
     (case buyBuyer body of
        None \<Rightarrow> (ErrorResponse 400 ''Missing field: buyer'', [])
      | Some buyer \<Rightarrow>
     (case fetchMaybeLaunchpadState e launchpadStateAddress of
        Inl ex \<Rightarrow> (Caught ex, [FetchState launchpadStateAddress])
      | Inr None \<Rightarrow>
          (ErrorResponse 404 ''Launchpad state account not found'',
           [FetchState launchpadStateAddress])
      | Inr (Some launchpadData) \<Rightarrow>
          (let (r, evs) = buyOnState e launchpadStateAddress solAmount buyer launchpadData
           in (r, FetchState launchpadStateAddress # evs))))))"


section \<open>POST /sell\<close>

record sell_request_body =
  sellLaunchpadStateAddress :: "string option"
  sellTokenAmount :: "js_amount option"
  sellSolAmount :: "js_amount option"
  sellSeller :: "string option"

definition sellTokenKeys ::
  "env \<Rightarrow> string \<Rightarrow> string \<Rightarrow> string \<Rightarrow> string \<Rightarrow> string \<Rightarrow> string \<Rightarrow> account_meta list" where
  "sellTokenKeys e launchpadStateAddress solVault tokenVaultAddress mintAddress seller
       sellerTokenAccountAddress =
     [ \<lparr>pubkey = launchpadStateAddress, isSigner = False, isWritable = True\<rparr>,
       \<lparr>pubkey = solVault, isSigner = False, isWritable = True\<rparr>,
       \<lparr>pubkey = tokenVaultAddress, isSigner = False, isWritable = True\<rparr>,
       \<lparr>pubkey = mintAddress, isSigner = False, isWritable = True\<rparr>,
       \<lparr>pubkey = seller, isSigner = True, isWritable = True\<rparr>,
       \<lparr>pubkey = sellerTokenAccountAddress, isSigner = False, isWritable = True\<rparr>,
       \<lparr>pubkey = SYSTEM_PROGRAM_ID, isSigner = False, isWritable = False\<rparr>,
       \<lparr>pubkey = TOKEN_PROGRAM_ID e, isSigner = False, isWritable = False\<rparr>,
       \<lparr>pubkey = ASSOCIATED_TOKEN_PROGRAM e, isSigner = False, isWritable = False\<rparr> ]"

text \<open>Steps 5 to 9 of the handler: derive, encode, list the accounts, answer.\<close>

definition sellBuild :: "env \<Rightarrow> string \<Rightarrow> string \<Rightarrow> string \<Rightarrow> string \<Rightarrow> int \<Rightarrow> response" where
  "sellBuild e launchpadStateAddress seller mintAddress tokenVaultAddress finalTokenAmount =
     (case getProgramDerivedAddress e (LAUNCHPAD_PROGRAM_ADDRESS e)
             [SeedText ''sol_vault'', SeedAddress launchpadStateAddress] of
        Inl ex \<Rightarrow> Caught ex
      | Inr solVault \<Rightarrow>
     (case getAssociatedTokenAddress e mintAddress seller of
        Inl ex \<Rightarrow> Caught ex
      | Inr sellerTokenAccountAddress \<Rightarrow>
     (case encodeSellToken e finalTokenAmount of
        Inl ex \<Rightarrow> Caught ex
      | Inr sellTokenData \<Rightarrow>
          SellBuilt
            \<lparr>programId = LAUNCHPAD_PROGRAM_ADDRESS e,
             keys = sellTokenKeys e launchpadStateAddress solVault tokenVaultAddress
                      mintAddress seller sellerTokenAccountAddress,
             data = toBase64 e sellTokenData\<rparr>)))"

text \<open>
  The handler's \<open>tokenAmountWithDecimals\<close>:
  \<open>(solAmountLamports * virtualTokenReserves) / (virtualSolReserves - solAmountLamports)\<close>.
\<close>

definition sellTokenAmountWithDecimals :: "int \<Rightarrow> int \<Rightarrow> int \<Rightarrow> js_exception + int" where
  "sellTokenAmountWithDecimals vSol vTok solAmountLamports =
     bigint_div (solAmountLamports * vTok) (vSol - solAmountLamports)"

text \<open>
  Step 4 of the handler, the branch \<open>solAmount !== undefined\<close>: the token amount for a
  requested SOL amount, or the answer that refuses the request.
\<close>

definition sellBySol ::
  "js_amount \<Rightarrow> launchpad_state \<Rightarrow> (response + int) \<times> event list" where
  "sellBySol solAmount launchpadData =
     (case toBigInt (BigIntVal (int (virtualSolReserves launchpadData))) of
        Inl ex \<Rightarrow> (Inl (Caught ex), [])
      | Inr vSol \<Rightarrow>
     (case toBigInt (BigIntVal (int (virtualTokenReserves launchpadData))) of
        Inl ex \<Rightarrow> (Inl (Caught ex), [])
      | Inr vTok \<Rightarrow>
     (case toBigInt (BigIntVal (int (k launchpadData))) of
        Inl ex \<Rightarrow> (Inl (Caught ex), [])
      | Inr kk \<Rightarrow>
     (case toBigInt solAmount of
        Inl ex \<Rightarrow> (Inl (Caught ex), [])
      | Inr sol \<Rightarrow>
        let solAmountLamports = sol * LAMPORTS_PER_SOL in
        if vSol = 0 \<or> vTok = 0
        then (Inl (ErrorResponse 400 ''Invalid launchpad state: Virtual reserves are zero.''), [])
        else if solAmountLamports \<ge> vSol
        then (Inl (ErrorResponse 400 ''SOL amount exceeds available reserves.''), [])
        else
          (case sellTokenAmountWithDecimals vSol vTok solAmountLamports of
             Inl ex \<Rightarrow> (Inl (Caught ex), [])
           | Inr tokenAmountWithDecimals \<Rightarrow>
               if tokenAmountWithDecimals \<le> 0
               then (Inl (ErrorResponse 400 ''SOL amount is too low to sell any tokens.''), [])
               else
                 (case bigint_div tokenAmountWithDecimals 1000000 of
                    Inl ex \<Rightarrow> (Inl (Caught ex), [])
                  | Inr finalTokenAmount \<Rightarrow>
                      (Inr finalTokenAmount,
                       [ConsoleLog ''Sell instruction calculation:''
                          [(''solAmountLamports'', solAmountLamports),
                           (''virtualSolReserves'', vSol),
                           (''virtualTokenReserves'', vTok),
                           (''k'', kk),
                           (''tokenAmountWithDecimals'', tokenAmountWithDecimals),
                           (''calculatedTokenAmount'', finalTokenAmount)]])))))))"

text \<open>
  Steps 3 to 9 on the fetched account. With \<open>solAmount\<close> undefined the token amount is
  \<open>toBigInt(tokenAmount!)\<close>; \<open>BigInt(undefined)\<close> raises \<open>TypeError\<close>.
\<close>

definition sellOnState ::
  "env \<Rightarrow> string \<Rightarrow> js_amount option \<Rightarrow> js_amount option \<Rightarrow> string \<Rightarrow> launchpad_state
     \<Rightarrow> response \<times> event list" where
  "sellOnState e launchpadStateAddress tokenAmount solAmount seller launchpadData =
     (case (mint launchpadData, tokenVault launchpadData) of
        (Some mintAddress, Some tokenVaultAddress) \<Rightarrow>
          (case solAmount of
             Some sa \<Rightarrow>
               (case sellBySol sa launchpadData of
                  (Inl r, evs) \<Rightarrow> (r, evs)
                | (Inr finalTokenAmount, evs) \<Rightarrow>
                    (sellBuild e launchpadStateAddress seller mintAddress tokenVaultAddress
                       finalTokenAmount, evs))
           | None \<Rightarrow>
               (case (case tokenAmount of None \<Rightarrow> Inl TypeError | Some ta \<Rightarrow> toBigInt ta) of
                  Inl ex \<Rightarrow> (Caught ex, [])
                | Inr finalTokenAmount \<Rightarrow>
                    (sellBuild e launchpadStateAddress seller mintAddress tokenVaultAddress
                       finalTokenAmount, [])))
      | _ \<Rightarrow> (ErrorResponse 400 ''Token mint or vault not initialized in launchpad data'', []))"

text \<open>
  The handler: the required fields, the two truthiness tests on the amount fields, the
  fetch, then the steps above.
\<close>

definition sell :: "env \<Rightarrow> sell_request_body \<Rightarrow> response \<times> event list" where
  "sell e body =
     (case sellLaunchpadStateAddress body of
        None \<Rightarrow> (ErrorResponse 400 ''Missing field: launchpadStateAddress'', [])
      | Some launchpadStateAddress \<Rightarrow>
     (case sellSeller body of
        None \<Rightarrow> (ErrorResponse 400 ''Missing field: seller'', [])
      | Some seller \<Rightarrow>
        if \<not> truthy (sellTokenAmount body) \<and> \<not> truthy (sellSolAmount body)
        then (ErrorResponse 400 ''Either tokenAmount or solAmount must be provided'', [])
        else if truthy (sellTokenAmount body) \<and> truthy (sellSolAmount body)
        then (ErrorResponse 400 ''Provide either tokenAmount or solAmount, not both'', [])
        else
          (case fetchMaybeLaunchpadState e launchpadStateAddress of
             Inl ex \<Rightarrow> (Caught ex, [FetchState launchpadStateAddress])
           | Inr None \<Rightarrow>
               (ErrorResponse 404 ''Launchpad state account not found'',
                [FetchState launchpadStateAddress])
           | Inr (Some launchpadData) \<Rightarrow>
               (let (r, evs) = sellOnState e launchpadStateAddress (sellTokenAmount body)
                                 (sellSolAmount body) seller launchpadData
                in (r, FetchState launchpadStateAddress # evs)))))"

section \<open>POST /graduate\<close>

text \<open>The request body; \<open>None\<close> for the whole body is a missing body.\<close>

record state_request_body =
  reqLaunchpadStateAddress :: "string option"

text \<open>The field test \<open>!body || !body.launchpadStateAddress\<close>: the address when truthy.\<close>

definition requestedAddress :: "state_request_body option \<Rightarrow> string option" where
  "requestedAddress body =
     (case body of
        None \<Rightarrow> None
      | Some b \<Rightarrow>
          (case reqLaunchpadStateAddress b of
             None \<Rightarrow> None
           | Some a \<Rightarrow> if a = [] then None else Some a))"

definition graduateInstruction :: "env \<Rightarrow> string \<Rightarrow> 8 word list \<Rightarrow> transaction_instruction" where
  "graduateInstruction e launchpadStateAddress graduateData =
     \<lparr>txProgramId = LAUNCHPAD_PROGRAM_ADDRESS e,
      txKeys =
        [ \<lparr>pubkey = launchpadStateAddress, isSigner = False, isWritable = True\<rparr>,
          \<lparr>pubkey = platformAuthorityPublicKey e, isSigner = True, isWritable = True\<rparr> ],
      txData = graduateData\<rparr>"

definition graduate :: "env \<Rightarrow> state_request_body option \<Rightarrow> response \<times> event list" where
  "graduate e body =
     (case requestedAddress body of
        None \<Rightarrow> (ErrorResponse 400 ''Missing field: launchpadStateAddress'', [])
      | Some launchpadStateAddress \<Rightarrow>
     (case address e launchpadStateAddress of
        Some ex \<Rightarrow> (Caught ex, [])
      | None \<Rightarrow>
     (case fetchMaybeLaunchpadState e launchpadStateAddress of
        Inl ex \<Rightarrow> (Caught ex, [FetchState launchpadStateAddress])
      | Inr None \<Rightarrow>
          (ErrorResponse 404 ''Launchpad state account not found'',
           [FetchState launchpadStateAddress])
      | Inr (Some launchpadData) \<Rightarrow>
          if status launchpadData \<noteq> Transition
          then (ErrorResponse 400
                  (''Launchpad must be in Transition state to graduate. Current state: ''
                     @ statusName (status launchpadData)),
                [FetchState launchpadStateAddress])
          else if platformAuthority launchpadData \<noteq> platformAuthorityPublicKey e
          then (ErrorResponse 403
                  ''Platform authority keypair does not match the launchpad platform authority'',
                [FetchState launchpadStateAddress])
          else
            (case encodeGraduateToSafe e of
               Inl ex \<Rightarrow> (Caught ex, [FetchState launchpadStateAddress])
             | Inr graduateData \<Rightarrow>
            (case getLatestBlockhash e of
               Inl ex \<Rightarrow> (Caught ex, [FetchState launchpadStateAddress, GetLatestBlockhash])
             | Inr (blockhash, height) \<Rightarrow>
                 let tx = \<lparr>instructions =
                             [graduateInstruction e launchpadStateAddress graduateData],
                           recentBlockhash = blockhash,
                           lastValidBlockHeight = height,
                           feePayer = platformAuthorityPublicKey e,
                           signers = [platformAuthorityPublicKey e]\<rparr>
                 in (case sendAndConfirmTransaction e tx of
                       Inl ex \<Rightarrow>
                         (Caught ex,
                          [FetchState launchpadStateAddress, GetLatestBlockhash,
                           SendAndConfirm tx])
                     | Inr signature \<Rightarrow>
                         (Graduated signature launchpadStateAddress ''Transition'' ''Safe'',
                          [FetchState launchpadStateAddress, GetLatestBlockhash,
                           SendAndConfirm tx])))))))"

section \<open>POST /generate-safe and POST /check-and-generate-safe\<close>

definition bridgePayload :: "string \<Rightarrow> launchpad_state \<Rightarrow> bridge_payload" where
  "bridgePayload launchpadStateAddress launchpadData =
     \<lparr>bpSolRaised = solRaised launchpadData,
      bpTokensSold = tokensSold launchpadData,
      bpSolTarget = solRaiseTarget launchpadData,
      bpTokensForSale = tokensForSale launchpadData,
      bpLaunchpadAddress = launchpadStateAddress\<rparr>"

definition generateSafe :: "env \<Rightarrow> state_request_body option \<Rightarrow> response \<times> event list" where
  "generateSafe e body =
     (case requestedAddress body of
        None \<Rightarrow> (ErrorResponse 400 ''Missing field: launchpadStateAddress'', [])
      | Some launchpadStateAddress \<Rightarrow>
     (case address e launchpadStateAddress of
        Some ex \<Rightarrow> (Caught ex, [])
      | None \<Rightarrow>
     (case fetchMaybeLaunchpadState e launchpadStateAddress of
        Inl ex \<Rightarrow> (Caught ex, [FetchState launchpadStateAddress])
      | Inr None \<Rightarrow>
          (ErrorResponse 404 ''Launchpad state account not found'',
           [FetchState launchpadStateAddress])
      | Inr (Some launchpadData) \<Rightarrow>
          if status launchpadData \<noteq> Transition
          then (ErrorResponse 400
                  (''Launchpad must be in Transition state to generate SAFE. Current state: ''
                     @ statusName (status launchpadData)),
                [FetchState launchpadStateAddress])
          else
            (let payload = bridgePayload launchpadStateAddress launchpadData;
                 evs = [FetchState launchpadStateAddress, BridgeCall payload]
             in case postGenerateSafe e payload of
                  Inl ex \<Rightarrow> (Caught ex, evs)
                | Inr (NotOk errorText) \<Rightarrow>
                    (ErrorResponse 500 ''Failed to generate SAFE document via AI agent'', evs)
                | Inr (OkJson pdfUrl filename) \<Rightarrow>
                    (SafeGenerated launchpadStateAddress pdfUrl filename, evs)))))"

text \<open>
  The route that polls: it keeps \<open>safeGeneratedCache\<close>, a map from launchpad address to
  the document already generated, across requests. The map is passed in and returned.
  An optional string is truthy when present and not empty.
\<close>

type_synonym safe_cache = "string \<rightharpoonup> string \<times> string"

definition checkAndGenerateSafe ::
  "env \<Rightarrow> safe_cache \<Rightarrow> state_request_body option \<Rightarrow> response \<times> event list \<times> safe_cache" where
  "checkAndGenerateSafe e safeGeneratedCache body =
     (case requestedAddress body of
        None \<Rightarrow> (ErrorResponse 400 ''Missing field: launchpadStateAddress'', [], safeGeneratedCache)
      | Some launchpadStateAddress \<Rightarrow>
     (case safeGeneratedCache launchpadStateAddress of
        Some cachedDoc \<Rightarrow> (SafeAlreadyGenerated cachedDoc, [], safeGeneratedCache)
      | None \<Rightarrow>
     (case address e launchpadStateAddress of
        Some ex \<Rightarrow> (Caught ex, [], safeGeneratedCache)
      | None \<Rightarrow>
     (case fetchMaybeLaunchpadState e launchpadStateAddress of
        Inl ex \<Rightarrow> (Caught ex, [FetchState launchpadStateAddress], safeGeneratedCache)
      | Inr None \<Rightarrow>
          (ErrorResponse 404 ''Launchpad state account not found'',
           [FetchState launchpadStateAddress], safeGeneratedCache)
      | Inr (Some launchpadData) \<Rightarrow>
          if status launchpadData = Transition \<or> status launchpadData = Safe
          then
            (let payload = bridgePayload launchpadStateAddress launchpadData;
                 evs = [FetchState launchpadStateAddress, BridgeCall payload]
             in case postGenerateSafe e payload of
                  Inl ex \<Rightarrow>
                    (ErrorResponse 500 ''Failed to generate SAFE document'', evs,
                     safeGeneratedCache)
                | Inr (NotOk errorText) \<Rightarrow>
                    (ErrorResponse 500 ''Failed to generate SAFE document'', evs,
                     safeGeneratedCache)
                | Inr (OkJson pdfUrl filename) \<Rightarrow>
                    (SafeChecked (statusName (status launchpadData))
                       (status launchpadData = Transition) pdfUrl filename,
                     evs,
                     (case (pdfUrl, filename) of
                        (Some u, Some f) \<Rightarrow>
                          if u \<noteq> [] \<and> f \<noteq> []
                          then safeGeneratedCache(launchpadStateAddress \<mapsto> (u, f))
                          else safeGeneratedCache
                      | _ \<Rightarrow> safeGeneratedCache)))
          else
            (NoActionNeeded (statusName (status launchpadData)),
             [FetchState launchpadStateAddress], safeGeneratedCache)))))"

section \<open>The account-layout decoder of the spot-price route\<close>

text \<open>The unsigned little-endian value of a run of bytes; \<open>0\<close> for no bytes.\<close>

fun le_value :: "8 word list \<Rightarrow> nat" where
  "le_value [] = 0"
| "le_value (b # bs) = unat b + 256 * le_value bs"

text \<open>
  \<open>Buffer.readUInt32LE(offset)\<close> raises a \<open>RangeError\<close> unless the four bytes at
  \<open>offset\<close> lie inside the buffer.
\<close>

definition readUInt32LE :: "8 word list \<Rightarrow> nat \<Rightarrow> js_exception + nat" where
  "readUInt32LE buf offset =
     (if offset + 4 \<le> length buf then Inr (le_value (take 4 (drop offset buf)))
      else Inl RangeError)"

text \<open>
  \<open>Buffer.slice(start, end)\<close> for \<open>0 \<le> start \<le> end\<close>: both ends are clipped to the
  buffer, so the result may be shorter than \<open>end - start\<close>, or empty. It never raises.
\<close>

definition slice :: "8 word list \<Rightarrow> nat \<Rightarrow> nat \<Rightarrow> 8 word list" where
  "slice buf start end' = take (end' - start) (drop start buf)"

text \<open>\<open>new BN(bytes, 'le')\<close>: the little-endian value; an empty buffer gives \<open>0\<close>.\<close>

definition BN_le :: "8 word list \<Rightarrow> nat" where
  "BN_le bytes = le_value bytes"

record decoded_state =
  tokensSoldRaw :: nat
  initialPriceLamports :: nat
  slope :: nat

definition decodeLaunchpadState :: "8 word list \<Rightarrow> js_exception + decoded_state" where
  "decodeLaunchpadState buf =
     (let offset0 = 8 + 32 in
      case readUInt32LE buf offset0 of
        Inl ex \<Rightarrow> Inl ex
      | Inr len1 \<Rightarrow>
     (let offset1 = offset0 + (4 + len1) in
      case readUInt32LE buf offset1 of
        Inl ex \<Rightarrow> Inl ex
      | Inr len2 \<Rightarrow>
     (let offset2 = offset1 + (4 + len2) in
      case readUInt32LE buf offset2 of
        Inl ex \<Rightarrow> Inl ex
      | Inr len3 \<Rightarrow>
     (let offset3 = offset2 + (4 + len3) + 8 + 8;
          initialPrice = BN_le (slice buf offset3 (offset3 + 8));
          offset4 = offset3 + 8;
          slopeValue = BN_le (slice buf offset4 (offset4 + 16));
          offset5 = offset4 + 16 + 8;
          sold = BN_le (slice buf offset5 (offset5 + 8))
      in Inr \<lparr>tokensSoldRaw = sold, initialPriceLamports = initialPrice,
               slope = slopeValue\<rparr>))))"


section \<open>Observations on answers and events\<close>

text \<open>The instruction an answer carries, if it carries one.\<close>

fun builtInstruction :: "response \<Rightarrow> instruction option" where
  "builtInstruction (BuyBuilt ins twd raw) = Some ins"
| "builtInstruction (SellBuilt ins) = Some ins"
| "builtInstruction r = None"

fun isConsoleLog :: "event \<Rightarrow> bool" where
  "isConsoleLog (ConsoleLog label entries) = True"
| "isConsoleLog ev = False"

fun isSendAndConfirm :: "event \<Rightarrow> bool" where
  "isSendAndConfirm (SendAndConfirm tx) = True"
| "isSendAndConfirm ev = False"

fun isBridgeCall :: "event \<Rightarrow> bool" where
  "isBridgeCall (BridgeCall payload) = True"
| "isBridgeCall ev = False"

text \<open>
  Two accounts agree on the fields the swap handlers read besides \<open>k\<close>: the two
  reserves, the mint and the token vault. Every other field may differ.
\<close>

definition sameSwapFields :: "launchpad_state \<Rightarrow> launchpad_state \<Rightarrow> bool" where
  "sameSwapFields s t \<longleftrightarrow>
     virtualSolReserves s = virtualSolReserves t
   \<and> virtualTokenReserves s = virtualTokenReserves t
   \<and> mint s = mint t \<and> tokenVault s = tokenVault t"

section \<open>A sample environment\<close>

text \<open>
  A launchpad account with the reserves of the spec's scenario, and collaborators that
  answer every call: the fetch returns the given account, derived addresses are tagged
  strings, the encoders return the amount's low byte, the network confirms.
\<close>

definition sampleState :: launchpad_state where
  "sampleState =
     \<lparr>status = Trading,
      virtualSolReserves = 30000000000,
      virtualTokenReserves = 1073000000000000,
      k = 32190000000000000000000000,
      mint = Some ''Mint'',
      tokenVault = Some ''TokenVault'',
      solRaised = 0,
      tokensSold = 0,
      solRaiseTarget = 85000000000,
      tokensForSale = 800000000,
      platformAuthority = ''Platform''\<rparr>"

fun seedString :: "seed \<Rightarrow> string" where
  "seedString (SeedText t) = t"
| "seedString (SeedAddress a) = a"

definition sampleEnv :: "launchpad_state \<Rightarrow> env" where
  "sampleEnv st =
     \<lparr>LAUNCHPAD_PROGRAM_ADDRESS = ''Launchpad'',
      TOKEN_PROGRAM_ID = ''TokenkegQfeZyiNwAJbNbGKPFXCWuBvf9Ss623VQ5DA'',
      ASSOCIATED_TOKEN_PROGRAM = ''ATokenGPvbdGVxr1b2hvZbsiqW5xWH25efTNsLJA8knL'',
      fetchMaybeLaunchpadState = (\<lambda>a. Inr (Some st)),
      getProgramDerivedAddress = (\<lambda>p seeds. Inr (concat (map seedString seeds))),
      getAssociatedTokenAddress = (\<lambda>m owner. Inr (m @ owner)),
      encodeBuyToken = (\<lambda>n. Inr [word_of_int n]),
      encodeSellToken = (\<lambda>n. Inr [word_of_int n]),
      encodeGraduateToSafe = Inr [],
      bufferToBase64 = (\<lambda>bytes. map (\<lambda>b. char_of (unat b)) bytes),
      address = (\<lambda>a. None),
      platformAuthorityPublicKey = ''Platform'',
      getLatestBlockhash = Inr (''Blockhash'', 1),
      sendAndConfirmTransaction = (\<lambda>tx. Inr ''Signature''),
      postGenerateSafe = (\<lambda>payload. Inr (OkJson (Some ''safe.pdf'') (Some ''safe.pdf'')))\<rparr>"

definition sampleBuy :: "js_amount \<Rightarrow> buy_request_body" where
  "sampleBuy amount =
     \<lparr>buyLaunchpadStateAddress = Some ''State'', buySolAmount = Some amount,
      buyBuyer = Some ''Buyer''\<rparr>"

definition sampleSell :: "js_amount option \<Rightarrow> js_amount option \<Rightarrow> sell_request_body" where
  "sampleSell tokens sol =
     \<lparr>sellLaunchpadStateAddress = Some ''State'', sellTokenAmount = tokens,
      sellSolAmount = sol, sellSeller = Some ''Seller''\<rparr>"

definition sampleRequest :: "state_request_body option" where
  "sampleRequest = Some \<lparr>reqLaunchpadStateAddress = Some ''State''\<rparr>"


section \<open>The swap amounts\<close>

lemmas sample_defs = sampleEnv_def sampleState_def sampleBuy_def sampleSell_def sampleRequest_def

lemmas buy_defs = buy_def buyOnState_def buyBuild_def buyTokenAmountWithDecimals_def
  bigint_div_def LAMPORTS_PER_SOL_def math_trunc_def

lemmas sell_defs = sell_def sellOnState_def sellBySol_def sellBuild_def
  sellTokenAmountWithDecimals_def bigint_div_def LAMPORTS_PER_SOL_def math_trunc_def

lemma bigint_div_sdiv: "b \<noteq> 0 \<Longrightarrow> bigint_div a b = Inr (a sdiv b)"
  by (simp add: bigint_div_def signed_divide_int_def)

lemma buyBuild_BuyBuilt:
  "buyBuild e addr byr m v q r = BuyBuilt ins twd raw \<Longrightarrow>
     twd = q \<and> raw = r \<and> (\<exists>bytes. encodeBuyToken e r = Inr bytes \<and> data ins = bufferToBase64 e bytes)"
  by (auto simp: buyBuild_def toBase64_def split: sum.splits)

lemma buy_reaches_formula:
  assumes "buyLaunchpadStateAddress body = Some addr"
    and "buySolAmount body = Some sa"
    and "buyBuyer body = Some byr"
    and "fetchMaybeLaunchpadState e addr = Inr (Some st)"
    and "mint st = Some m" and "tokenVault st = Some v"
    and "toBigInt sa = Inr n"
    and "virtualSolReserves st \<noteq> 0" and "virtualTokenReserves st \<noteq> 0"
    and "int (virtualSolReserves st) + n * 1000000000 \<noteq> 0"
  shows "fst (buy e body) =
     (if (n * 1000000000 * int (virtualTokenReserves st)) sdiv (int (virtualSolReserves st) + n * 1000000000) \<le> 0
      then ErrorResponse 400 ''SOL amount is too low to purchase any tokens.''
      else buyBuild e addr byr m v
            ((n * 1000000000 * int (virtualTokenReserves st)) sdiv (int (virtualSolReserves st) + n * 1000000000))
            ((n * 1000000000 * int (virtualTokenReserves st)) sdiv (int (virtualSolReserves st) + n * 1000000000) sdiv 1000000))"
  using assms
  by (simp add: buy_def buyOnState_def buyTokenAmountWithDecimals_def LAMPORTS_PER_SOL_def
      bigint_div_sdiv Let_def split: prod.splits)

text \<open>
  Claim C1. A buy request that reaches the swap computation (fields present, account
  fetched with mint and vault, SOL amount convertible to \<open>n\<close>, reserves \<open>x\<close>, \<open>y\<close> not
  zero, \<open>x + \<Delta>x \<noteq> 0\<close> for \<open>\<Delta>x = n \<cdot> 10\<^sup>9\<close> lamports) computes the scaled amount
  \<open>q = (\<Delta>x \<cdot> y) / (x + \<Delta>x)\<close>, the quotient truncated toward zero (\<open>sdiv\<close>). It
  refuses \<open>q \<le> 0\<close> and otherwise builds the instruction from \<open>q\<close> and the raw amount
  \<open>q / 10\<^sup>6\<close>: an answer with an instruction reports exactly these two numbers and its
  data are the encoding of the raw amount. For \<open>x = 30_000_000_000\<close>,
  \<open>y = 1_073_000_000_000_000\<close> and \<open>\<Delta>x = 1_000_000_000\<close> the scaled amount is
  \<open>34_612_903_225_806\<close> and the raw amount \<open>34_612_903\<close>.
\<close>

theorem buy_token_amount:
  assumes "buyLaunchpadStateAddress body = Some addr"
    and "buySolAmount body = Some sa"
    and "buyBuyer body = Some byr"
    and "fetchMaybeLaunchpadState e addr = Inr (Some st)"
    and "mint st = Some m" and "tokenVault st = Some v"
    and "toBigInt sa = Inr n"
    and "virtualSolReserves st \<noteq> 0" and "virtualTokenReserves st \<noteq> 0"
    and "int (virtualSolReserves st) + n * 1000000000 \<noteq> 0"
  shows "let x = int (virtualSolReserves st); y = int (virtualTokenReserves st);
             dx = n * 1000000000; q = (dx * y) sdiv (x + dx)
         in fst (buy e body) =
              (if q \<le> 0 then ErrorResponse 400 ''SOL amount is too low to purchase any tokens.''
               else buyBuild e addr byr m v q (q sdiv 1000000))
          \<and> (\<forall>ins twd raw. fst (buy e body) = BuyBuilt ins twd raw \<longrightarrow>
                twd = q \<and> raw = q sdiv 1000000 \<and> 0 < twd
                \<and> (\<exists>bytes. encodeBuyToken e raw = Inr bytes \<and> data ins = bufferToBase64 e bytes))
          \<and> (x = 30000000000 \<and> y = 1073000000000000 \<and> dx = 1000000000 \<longrightarrow>
                q = 34612903225806 \<and> q sdiv 1000000 = 34612903)"
proof -
  define q where "q = (n * 1000000000 * int (virtualTokenReserves st)) sdiv (int (virtualSolReserves st) + n * 1000000000)"
  have r: "fst (buy e body) =
     (if q \<le> 0 then ErrorResponse 400 ''SOL amount is too low to purchase any tokens.''
      else buyBuild e addr byr m v q (q sdiv 1000000))"
    unfolding q_def by (rule buy_reaches_formula [OF assms])
  have b: "twd = q \<and> raw = q sdiv 1000000 \<and> 0 < twd
        \<and> (\<exists>bytes. encodeBuyToken e raw = Inr bytes \<and> data ins = bufferToBase64 e bytes)"
    if "fst (buy e body) = BuyBuilt ins twd raw" for ins twd raw
  proof (cases "q \<le> 0")
    case True
    with r that show ?thesis by simp
  next
    case False
    with r that have "buyBuild e addr byr m v q (q sdiv 1000000) = BuyBuilt ins twd raw" by simp
    from buyBuild_BuyBuilt [OF this] False show ?thesis by auto
  qed
  have c: "q = 34612903225806 \<and> q sdiv 1000000 = 34612903"
    if "int (virtualSolReserves st) = 30000000000" "int (virtualTokenReserves st) = 1073000000000000"
       "n * 1000000000 = 1000000000"
    using that unfolding q_def by (simp add: signed_divide_int_def)
  show ?thesis
    unfolding Let_def q_def [symmetric] using r b c by blast
qed



theorem buy_token_amount_witness:
  "fst (buy (sampleEnv sampleState) (sampleBuy (NumberVal (Finite 1)))) =
     buyBuild (sampleEnv sampleState) ''State'' ''Buyer'' ''Mint'' ''TokenVault''
       34612903225806 34612903
   \<and> (\<exists>ins. fst (buy (sampleEnv sampleState) (sampleBuy (NumberVal (Finite 1)))) =
          BuyBuilt ins 34612903225806 34612903)"
proof -
  have h1: "buyLaunchpadStateAddress (sampleBuy (NumberVal (Finite 1))) = Some ''State''"
    and h2: "buySolAmount (sampleBuy (NumberVal (Finite 1))) = Some (NumberVal (Finite 1))"
    and h3: "buyBuyer (sampleBuy (NumberVal (Finite 1))) = Some ''Buyer''"
    by (simp_all add: sampleBuy_def)
  have h4: "fetchMaybeLaunchpadState (sampleEnv sampleState) ''State'' = Inr (Some sampleState)"
    by (simp add: sampleEnv_def)
  have h5: "mint sampleState = Some ''Mint''"
    and h6: "tokenVault sampleState = Some ''TokenVault''"
    and h8: "virtualSolReserves sampleState \<noteq> 0"
    and h9: "virtualTokenReserves sampleState \<noteq> 0"
    and h10: "int (virtualSolReserves sampleState) + 1 * 1000000000 \<noteq> 0"
    by (simp_all add: sampleState_def)
  have h7: "toBigInt (NumberVal (Finite 1)) = Inr 1"
    by (simp add: math_trunc_def)
  have x: "int (virtualSolReserves sampleState) = 30000000000"
    and y: "int (virtualTokenReserves sampleState) = 1073000000000000"
    by (simp_all add: sampleState_def)
  note t = buy_token_amount [OF h1 h2 h3 h4 h5 h6 h7 h8 h9 h10, unfolded Let_def x y]
  have r: "fst (buy (sampleEnv sampleState) (sampleBuy (NumberVal (Finite 1)))) =
     buyBuild (sampleEnv sampleState) ''State'' ''Buyer'' ''Mint'' ''TokenVault''
       34612903225806 34612903"
    using conjunct1 [OF t] by (simp add: signed_divide_int_def)
  have "\<exists>ins. buyBuild (sampleEnv sampleState) ''State'' ''Buyer'' ''Mint'' ''TokenVault''
           34612903225806 34612903 = BuyBuilt ins 34612903225806 34612903"
    by (simp add: buyBuild_def sampleEnv_def)
  with r show ?thesis by simp
qed

text \<open>
  Claim C2. The handlers test the scaled amount, before the division by \<open>10\<^sup>6\<close>, so a
  scaled amount between 1 and 999999 passes the test and yields the raw amount 0.
  On an account with reserves \<open>x = 30_000_000_000\<close> and \<open>y = 1_000_000\<close>, a buy of 1 SOL
  has the scaled amount 32258 and is answered with an instruction for 0 tokens; a sell
  for 1 SOL on the same account computes the token amount 0 and is answered with an
  instruction as well.
\<close>

theorem zero_raw_amount_is_built:
  "(\<exists>ins. fst (buy (sampleEnv (sampleState\<lparr>virtualTokenReserves := 1000000\<rparr>))
                  (sampleBuy (NumberVal (Finite 1)))) = BuyBuilt ins 32258 0)
   \<and> fst (sellBySol (NumberVal (Finite 1)) (sampleState\<lparr>virtualTokenReserves := 1000000\<rparr>))
       = Inr 0
   \<and> (\<exists>ins. fst (sell (sampleEnv (sampleState\<lparr>virtualTokenReserves := 1000000\<rparr>))
                  (sampleSell None (Some (NumberVal (Finite 1))))) = SellBuilt ins)"
  by (simp add: sample_defs buy_defs sell_defs)

subsection \<open>Buying and selling back at the same reserves\<close>

lemma div_times_le:
  fixes a d :: int
  assumes "0 < d"
  shows "(a div d) * d \<le> a"
proof -
  have "(a div d) * d + a mod d = a" by (rule div_mult_mod_eq)
  moreover have "0 \<le> a mod d" using assms by simp
  ultimately show ?thesis by linarith
qed

lemma le_div_when:
  fixes a d m :: int
  assumes "0 < d" and "m * d \<le> a"
  shows "m \<le> a div d"
proof -
  have "(m * d) div d \<le> a div d" using assms by (intro zdiv_mono1)
  with assms(1) show ?thesis by simp
qed

lemma buy_amount_pos:
  fixes x y dx :: int
  assumes "0 < x" "0 < y" "0 < dx"
  shows "buyTokenAmountWithDecimals x y dx = Inr ((dx * y) div (x + dx))"
  using assms by (simp add: buyTokenAmountWithDecimals_def bigint_div_def sgn_mult)

lemma sell_amount_pos:
  fixes x y dx :: int
  assumes "0 < x" "0 < y" "0 < dx" "dx < x"
  shows "sellTokenAmountWithDecimals x y dx = Inr ((dx * y) div (x - dx))"
  using assms by (simp add: sellTokenAmountWithDecimals_def bigint_div_def sgn_mult)

text \<open>
  With at least as many scaled tokens as lamports in the reserves, asking for more SOL
  than was paid needs strictly more tokens than were bought: the two exact quotients
  differ by at least \<open>y / x \<ge> 1\<close>, which truncation cannot hide.
\<close>

lemma sell_back_needs_more:
  fixes x y a b :: int
  assumes "0 < a" and "a < b" and "b < x" and "x \<le> y"
  shows "(a * y) div (x + a) < (b * y) div (x - b)"
proof -
  define B where "B = (a * y) div (x + a)"
  have pos: "0 < x + a" "0 < x - b" "0 < x" "0 < y" "0 < b" using assms by simp_all
  have B1: "B * (x + a) \<le> a * y"
    unfolding B_def using pos(1) by (rule div_times_le)
  have s1: "(x - b) * (x + a) \<le> x * x"
  proof -
    have "(x - b) * (x + a) = x * x - (b - a) * x - a * b" by (simp add: algebra_simps)
    moreover have "0 \<le> (b - a) * x" using assms pos by simp
    moreover have "0 \<le> a * b" using assms pos by simp
    ultimately show ?thesis by linarith
  qed
  have s2: "x * x \<le> y * x" using assms pos by simp
  have s3: "y * x \<le> y * ((b - a) * x + 2 * a * b)"
  proof -
    have "1 * x \<le> (b - a) * x" using assms pos by (intro mult_right_mono) simp_all
    moreover have "0 \<le> 2 * a * b" using assms pos by simp
    ultimately have "x \<le> (b - a) * x + 2 * a * b" by simp
    with pos(4) show ?thesis by (intro mult_left_mono) simp_all
  qed
  have s4: "(x - b) * (x + a) \<le> y * ((b - a) * x + 2 * a * b)"
    using s1 s2 s3 by linarith
  have "(B + 1) * (x - b) * (x + a) = B * (x + a) * (x - b) + (x - b) * (x + a)"
    by (simp add: algebra_simps)
  also have "\<dots> \<le> a * y * (x - b) + (x - b) * (x + a)"
    using B1 pos(2) by (simp add: mult_right_mono)
  also have "\<dots> \<le> a * y * (x - b) + y * ((b - a) * x + 2 * a * b)"
    using s4 by simp
  also have "\<dots> = b * y * (x + a)" by (simp add: algebra_simps)
  finally have "(B + 1) * (x - b) * (x + a) \<le> b * y * (x + a)" .
  with pos(1) have "(B + 1) * (x - b) \<le> b * y" by simp
  with pos(2) have "B + 1 \<le> (b * y) div (x - b)" by (intro le_div_when)
  then show ?thesis unfolding B_def by simp
qed

lemma sell_back_needs_no_less:
  fixes x y a :: int
  assumes "0 < a" and "a < x" and "0 < y"
  shows "(a * y) div (x + a) \<le> (a * y) div (x - a)"
  using assms by (intro zdiv_mono2) simp_all

text \<open>
  Claim C3, as the code has it. For reserves \<open>x, y > 0\<close> (whatever \<open>k\<close> is: it plays no
  part) and \<open>0 < \<Delta>x < x\<close>, paying \<open>\<Delta>x\<close> buys \<open>(\<Delta>x \<cdot> y) / (x + \<Delta>x)\<close> tokens and a
  sell that is to return \<open>\<Delta>x\<close> needs \<open>(\<Delta>x \<cdot> y) / (x - \<Delta>x)\<close> tokens, at least as many
  as were bought. When moreover \<open>x \<le> y\<close>, every sell for more than \<open>\<Delta>x\<close> needs strictly
  more tokens than were bought, so the bought tokens never return more than was paid.
\<close>

theorem round_trip_amounts:
  fixes x y dx :: int
  assumes "0 < x" and "0 < y" and "0 < dx" and "dx < x"
  shows "buyTokenAmountWithDecimals x y dx = Inr ((dx * y) div (x + dx))
       \<and> sellTokenAmountWithDecimals x y dx = Inr ((dx * y) div (x - dx))
       \<and> (dx * y) div (x + dx) \<le> (dx * y) div (x - dx)
       \<and> (x \<le> y \<longrightarrow>
            (\<forall>dx'. dx < dx' \<and> dx' < x \<longrightarrow>
               (\<exists>t. sellTokenAmountWithDecimals x y dx' = Inr t \<and> (dx * y) div (x + dx) < t)))"
proof (intro conjI impI allI)
  show "buyTokenAmountWithDecimals x y dx = Inr ((dx * y) div (x + dx))"
    using assms by (simp add: buy_amount_pos)
  show "sellTokenAmountWithDecimals x y dx = Inr ((dx * y) div (x - dx))"
    using assms by (simp add: sell_amount_pos)
  show "(dx * y) div (x + dx) \<le> (dx * y) div (x - dx)"
    using assms by (intro sell_back_needs_no_less)
next
  fix dx' :: int
  assume xy: "x \<le> y" and d: "dx < dx' \<and> dx' < x"
  from d assms have "sellTokenAmountWithDecimals x y dx' = Inr ((dx' * y) div (x - dx'))"
    by (intro sell_amount_pos) simp_all
  moreover from d assms xy have "(dx * y) div (x + dx) < (dx' * y) div (x - dx')"
    by (intro sell_back_needs_more) simp_all
  ultimately show "\<exists>t. sellTokenAmountWithDecimals x y dx' = Inr t \<and> (dx * y) div (x + dx) < t"
    by simp
qed

theorem round_trip_amounts_witness:
  "buyTokenAmountWithDecimals 30000000000 1073000000000000 1000000000 = Inr 34612903225806
   \<and> sellTokenAmountWithDecimals 30000000000 1073000000000000 1000000000 = Inr 37000000000000
   \<and> (\<exists>t. sellTokenAmountWithDecimals 30000000000 1073000000000000 2000000000 = Inr t
          \<and> 34612903225806 < t)"
proof -
  have h: "(0::int) < 30000000000" "(0::int) < 1073000000000000" "(0::int) < 1000000000"
    "(1000000000::int) < 30000000000"
    by simp_all
  note t = round_trip_amounts [OF h]
  have q: "(1000000000 * 1073000000000000) div (30000000000 + 1000000000) = (34612903225806::int)"
    "(1000000000 * 1073000000000000) div (30000000000 - 1000000000) = (37000000000000::int)"
    by simp_all
  have a: "buyTokenAmountWithDecimals 30000000000 1073000000000000 1000000000
             = Inr 34612903225806"
    using conjunct1 [OF t] unfolding q .
  have b: "sellTokenAmountWithDecimals 30000000000 1073000000000000 1000000000
             = Inr 37000000000000"
    using conjunct1 [OF conjunct2 [OF t]] unfolding q .
  have "(30000000000::int) \<le> 1073000000000000" by simp
  with conjunct2 [OF conjunct2 [OF conjunct2 [OF t]]]
  have "\<forall>dx'. 1000000000 < dx' \<and> dx' < 30000000000 \<longrightarrow>
          (\<exists>t. sellTokenAmountWithDecimals 30000000000 1073000000000000 dx' = Inr t
             \<and> (1000000000 * 1073000000000000) div (30000000000 + 1000000000) < t)"
    by (rule mp)
  then have "(1000000000::int) < 2000000000 \<and> (2000000000::int) < 30000000000 \<longrightarrow>
          (\<exists>t. sellTokenAmountWithDecimals 30000000000 1073000000000000 2000000000 = Inr t
             \<and> (1000000000 * 1073000000000000) div (30000000000 + 1000000000) < t)"
    by (rule spec)
  then have c: "\<exists>t. sellTokenAmountWithDecimals 30000000000 1073000000000000 2000000000 = Inr t
             \<and> 34612903225806 < t"
    unfolding q by simp
  from a b c show ?thesis by blast
qed

text \<open>
  Claim C3 as stated fails, because both quotients are truncated. With \<open>x = 10\<^sup>1\<^sup>2\<close>
  lamports and \<open>y = 100\<close>, paying \<open>45 \<cdot> 10\<^sup>9\<close> lamports buys 4 tokens, and a sell that returns
  \<open>46 \<cdot> 10\<^sup>9\<close> lamports needs 4 tokens too.
\<close>

theorem round_trip_counterexample:
  "(0::int) < 45000000000 \<and> (45000000000::int) < 1000000000000
   \<and> buyTokenAmountWithDecimals 1000000000000 100 45000000000 = Inr 4
   \<and> sellTokenAmountWithDecimals 1000000000000 100 46000000000 = Inr 4
   \<and> (45000000000::int) < 46000000000 \<and> (46000000000::int) < 1000000000000"
  by (simp add: buyTokenAmountWithDecimals_def sellTokenAmountWithDecimals_def bigint_div_def)

section \<open>Validation of the sell request\<close>

text \<open>
  Claim C6. The two tests on the amount fields are truthiness tests, while the branch
  taken afterwards tests \<open>solAmount !== undefined\<close>. A request that carries both fields,
  \<open>tokenAmount: 0\<close> and \<open>solAmount: 1\<close>, passes both tests: the account is fetched and an
  instruction is built from the SOL amount. With \<open>tokenAmount: 5\<close> and \<open>solAmount: 0\<close> the
  tests pass as well, the account is fetched, the token amount is ignored and the
  request is refused for its SOL amount.
\<close>

theorem sell_with_both_amounts_is_built:
  "(\<exists>ins. fst (sell (sampleEnv sampleState)
                  (sampleSell (Some (NumberVal (Finite 0))) (Some (NumberVal (Finite 1)))))
            = SellBuilt ins)
   \<and> snd (sell (sampleEnv sampleState)
                  (sampleSell (Some (NumberVal (Finite 0))) (Some (NumberVal (Finite 1)))))
       = [FetchState ''State'',
          ConsoleLog ''Sell instruction calculation:''
            [(''solAmountLamports'', 1000000000),
             (''virtualSolReserves'', 30000000000),
             (''virtualTokenReserves'', 1073000000000000),
             (''k'', 32190000000000000000000000),
             (''tokenAmountWithDecimals'', 37000000000000),
             (''calculatedTokenAmount'', 37000000)]]
   \<and> sell (sampleEnv sampleState)
          (sampleSell (Some (NumberVal (Finite 5))) (Some (NumberVal (Finite 0))))
       = (ErrorResponse 400 ''SOL amount is too low to sell any tokens.'', [FetchState ''State''])"
  by (simp add: sample_defs sell_defs)

section \<open>The lifecycle gate\<close>

text \<open>
  Claim C4, as the code has it. On a fetched account whose status is not Transition,
  the graduate route and the generate-safe route answer \<open>400\<close> with a message that ends
  in the name of the current status, after the fetch and nothing else: no transaction is
  submitted, the bridge is not called. Either route answers with success, submits or
  calls the bridge only when the status is Transition. The polling route
  check-and-generate-safe is different: for an address with no cached document it
  answers \<open>no action needed\<close>, a success, when the status is Trading, and calls the bridge
  when the status is Transition or Safe.
\<close>

theorem transition_gate:
  assumes "requestedAddress body = Some a"
    and "address e a = None"
    and "fetchMaybeLaunchpadState e a = Inr (Some st)"
  shows "(status st \<noteq> Transition \<longrightarrow>
            graduate e body =
              (ErrorResponse 400
                 (''Launchpad must be in Transition state to graduate. Current state: ''
                    @ statusName (status st)),
               [FetchState a])
          \<and> generateSafe e body =
              (ErrorResponse 400
                 (''Launchpad must be in Transition state to generate SAFE. Current state: ''
                    @ statusName (status st)),
               [FetchState a]))
       \<and> (\<forall>sg a' p n. fst (graduate e body) = Graduated sg a' p n \<longrightarrow> status st = Transition)
       \<and> (\<forall>a' u f. fst (generateSafe e body) = SafeGenerated a' u f \<longrightarrow> status st = Transition)
       \<and> ((\<exists>ev \<in> set (snd (graduate e body)). isSendAndConfirm ev) \<longrightarrow> status st = Transition)
       \<and> ((\<exists>ev \<in> set (snd (generateSafe e body)). isBridgeCall ev) \<longrightarrow> status st = Transition)
       \<and> (safeGeneratedCache a = None \<longrightarrow>
            (status st = Trading \<longrightarrow>
               checkAndGenerateSafe e safeGeneratedCache body =
                 (NoActionNeeded ''Trading'', [FetchState a], safeGeneratedCache))
          \<and> (status st \<noteq> Trading \<longrightarrow>
               fst (snd (checkAndGenerateSafe e safeGeneratedCache body)) =
                 [FetchState a, BridgeCall (bridgePayload a st)]))"
proof (cases "status st")
  case Trading
  with assms show ?thesis
    by (simp add: graduate_def generateSafe_def checkAndGenerateSafe_def)
next
  case Transition
  with assms show ?thesis
    by (simp add: checkAndGenerateSafe_def Let_def split: sum.splits bridge_reply.splits)
next
  case Safe
  with assms show ?thesis
    by (simp add: graduate_def generateSafe_def checkAndGenerateSafe_def Let_def
        split: sum.splits bridge_reply.splits)
qed

theorem transition_gate_witness:
  "graduate (sampleEnv sampleState) sampleRequest =
     (ErrorResponse 400
        ''Launchpad must be in Transition state to graduate. Current state: Trading'',
      [FetchState ''State''])
   \<and> generateSafe (sampleEnv sampleState) sampleRequest =
     (ErrorResponse 400
        ''Launchpad must be in Transition state to generate SAFE. Current state: Trading'',
      [FetchState ''State''])
   \<and> checkAndGenerateSafe (sampleEnv sampleState) Map.empty sampleRequest =
     (NoActionNeeded ''Trading'', [FetchState ''State''], Map.empty)
   \<and> fst (graduate (sampleEnv (sampleState\<lparr>status := Transition\<rparr>)) sampleRequest) =
       Graduated ''Signature'' ''State'' ''Transition'' ''Safe''
   \<and> status (sampleState\<lparr>status := Transition\<rparr>) = Transition"
proof -
  let ?st = "sampleState\<lparr>status := Transition\<rparr>"
  have h1: "requestedAddress sampleRequest = Some ''State''"
    by (simp add: requestedAddress_def sampleRequest_def)
  have h2: "address (sampleEnv sampleState) ''State'' = None"
    and h3: "fetchMaybeLaunchpadState (sampleEnv sampleState) ''State'' = Inr (Some sampleState)"
    and h2': "address (sampleEnv ?st) ''State'' = None"
    and h3': "fetchMaybeLaunchpadState (sampleEnv ?st) ''State'' = Inr (Some ?st)"
    by (simp_all add: sampleEnv_def)
  have h4: "status sampleState \<noteq> Transition" and h5: "status sampleState = Trading"
    and s: "statusName (status sampleState) = ''Trading''"
    by (simp_all add: sampleState_def)
  note t = transition_gate [OF h1 h2 h3, of Map.empty]
  note t' = transition_gate [OF h1 h2' h3', of Map.empty]
  from conjunct1 [OF t] h4
  have a: "graduate (sampleEnv sampleState) sampleRequest =
     (ErrorResponse 400
        ''Launchpad must be in Transition state to graduate. Current state: Trading'',
      [FetchState ''State''])
   \<and> generateSafe (sampleEnv sampleState) sampleRequest =
     (ErrorResponse 400
        ''Launchpad must be in Transition state to generate SAFE. Current state: Trading'',
      [FetchState ''State''])"
    by (simp add: s)
  from conjunct2 [OF conjunct2 [OF conjunct2 [OF conjunct2 [OF conjunct2 [OF t]]]]] h5
  have b: "checkAndGenerateSafe (sampleEnv sampleState) Map.empty sampleRequest =
     (NoActionNeeded ''Trading'', [FetchState ''State''], Map.empty)"
    by simp
  have g: "fst (graduate (sampleEnv ?st) sampleRequest) =
       Graduated ''Signature'' ''State'' ''Transition'' ''Safe''"
    by (simp add: graduate_def requestedAddress_def sampleRequest_def sampleEnv_def
        sampleState_def)
  from conjunct1 [OF conjunct2 [OF t']] g
  have c: "status ?st = Transition" by blast
  from a b g c show ?thesis by simp
qed

text \<open>
  Claim C4 as stated fails on the polling route: on an account in status Safe it calls
  the bridge, answers with the generated document and caches it.
\<close>

theorem transition_gate_counterexample:
  "status (sampleState\<lparr>status := Safe\<rparr>) \<noteq> Transition
   \<and> checkAndGenerateSafe (sampleEnv (sampleState\<lparr>status := Safe\<rparr>)) Map.empty sampleRequest =
       (SafeChecked ''Safe'' False (Some ''safe.pdf'') (Some ''safe.pdf''),
        [FetchState ''State'',
         BridgeCall \<lparr>bpSolRaised = 0, bpTokensSold = 0, bpSolTarget = 85000000000,
                     bpTokensForSale = 800000000, bpLaunchpadAddress = ''State''\<rparr>],
        [''State'' \<mapsto> (''safe.pdf'', ''safe.pdf'')])"
  by (simp add: checkAndGenerateSafe_def requestedAddress_def bridgePayload_def sample_defs)

text \<open>
  Claim C5. On a fetched account in Transition whose \<open>platformAuthority\<close> differs from
  the address of the held key, graduate answers \<open>403\<close> after the fetch and nothing else:
  no blockhash is requested, nothing is signed or submitted.
\<close>

theorem authority_gate:
  assumes "requestedAddress body = Some a"
    and "address e a = None"
    and "fetchMaybeLaunchpadState e a = Inr (Some st)"
    and "status st = Transition"
    and "platformAuthority st \<noteq> platformAuthorityPublicKey e"
  shows "graduate e body =
           (ErrorResponse 403
              ''Platform authority keypair does not match the launchpad platform authority'',
            [FetchState a])
       \<and> \<not> (\<exists>ev \<in> set (snd (graduate e body)). isSendAndConfirm ev)"
  using assms by (simp add: graduate_def)

theorem authority_gate_witness:
  "graduate (sampleEnv (sampleState\<lparr>status := Transition, platformAuthority := ''Other''\<rparr>)) sampleRequest =
     (ErrorResponse 403
        ''Platform authority keypair does not match the launchpad platform authority'',
      [FetchState ''State''])"
proof -
  let ?st = "sampleState\<lparr>status := Transition, platformAuthority := ''Other''\<rparr>"
  have h1: "requestedAddress sampleRequest = Some ''State''"
    by (simp add: requestedAddress_def sampleRequest_def)
  have h2: "address (sampleEnv ?st) ''State'' = None"
    and h3: "fetchMaybeLaunchpadState (sampleEnv ?st) ''State'' = Inr (Some ?st)"
    and h5: "platformAuthority ?st \<noteq> platformAuthorityPublicKey (sampleEnv ?st)"
    by (simp_all add: sampleEnv_def)
  have h4: "status ?st = Transition" by simp
  from authority_gate [OF h1 h2 h3 h4 h5] show ?thesis by simp
qed

section \<open>Selling for a SOL amount\<close>

lemma sellBuild_SellBuilt:
  "sellBuild e a s m v amt = SellBuilt ins \<Longrightarrow>
     \<exists>bytes. encodeSellToken e amt = Inr bytes \<and> data ins = bufferToBase64 e bytes"
  by (auto simp: sellBuild_def toBase64_def split: sum.splits)

lemma sellBySol_exceeding:
  assumes "toBigInt sa = Inr n" and "int (virtualSolReserves st) \<le> n * 1000000000"
  shows "sellBySol sa st =
     (if virtualSolReserves st = 0 \<or> virtualTokenReserves st = 0
      then (Inl (ErrorResponse 400 ''Invalid launchpad state: Virtual reserves are zero.''), [])
      else (Inl (ErrorResponse 400 ''SOL amount exceeds available reserves.''), []))"
  using assms by (simp add: sellBySol_def LAMPORTS_PER_SOL_def)

lemma sellBySol_Inr:
  assumes "toBigInt sa = Inr n" and "sellBySol sa st = (Inr amt, evs)"
  shows "n * 1000000000 < int (virtualSolReserves st)
       \<and> amt = (n * 1000000000 * int (virtualTokenReserves st))
                 sdiv (int (virtualSolReserves st) - n * 1000000000) sdiv 1000000"
  using assms
  by (auto simp: sellBySol_def LAMPORTS_PER_SOL_def sellTokenAmountWithDecimals_def bigint_div_def
      signed_divide_int_def Let_def split: if_splits sum.splits)

lemma sellBySol_Inl:
  "sellBySol sa st = (Inl r, evs) \<Longrightarrow> builtInstruction r = None \<and> evs = []"
  by (auto simp: sellBySol_def Let_def split: if_splits sum.splits)

text \<open>
  Claim C7. For a sell request that names a SOL amount convertible to \<open>n\<close>, on a fetched
  account with \<open>virtualSolReserves \<le> n \<cdot> 10\<^sup>9\<close>: the answer is a \<open>400\<close> error, the swap
  calculation is never logged, and when the request passes the earlier tests (amount
  fields, mint and vault, reserves not zero) the error is
  \<open>SOL amount exceeds available reserves.\<close> after the fetch alone. Conversely an answer
  with an instruction means \<open>n \<cdot> 10\<^sup>9 < virtualSolReserves\<close>, and the instruction encodes
  \<open>(\<Delta>x \<cdot> y) / (x - \<Delta>x) / 10\<^sup>6\<close>.
\<close>

theorem sell_exceeding_reserves_rejected:
  assumes "sellLaunchpadStateAddress body = Some a"
    and "sellSeller body = Some s"
    and "sellSolAmount body = Some sa"
    and "toBigInt sa = Inr n"
    and "fetchMaybeLaunchpadState e a = Inr (Some st)"
  shows "(int (virtualSolReserves st) \<le> n * 1000000000 \<longrightarrow>
            (\<exists>msg. fst (sell e body) = ErrorResponse 400 msg)
          \<and> \<not> (\<exists>ev \<in> set (snd (sell e body)). isConsoleLog ev)
          \<and> (\<not> truthy (sellTokenAmount body) \<and> truthy (sellSolAmount body)
               \<and> mint st \<noteq> None \<and> tokenVault st \<noteq> None
               \<and> virtualSolReserves st \<noteq> 0 \<and> virtualTokenReserves st \<noteq> 0 \<longrightarrow>
             sell e body =
               (ErrorResponse 400 ''SOL amount exceeds available reserves.'', [FetchState a])))
       \<and> (\<forall>ins. fst (sell e body) = SellBuilt ins \<longrightarrow>
             n * 1000000000 < int (virtualSolReserves st)
           \<and> (\<exists>bytes. encodeSellToken e
                  ((n * 1000000000 * int (virtualTokenReserves st))
                     sdiv (int (virtualSolReserves st) - n * 1000000000) sdiv 1000000)
                  = Inr bytes
                \<and> data ins = bufferToBase64 e bytes))"
proof -
  have part1: "(\<exists>msg. fst (sell e body) = ErrorResponse 400 msg)
          \<and> \<not> (\<exists>ev \<in> set (snd (sell e body)). isConsoleLog ev)
          \<and> (\<not> truthy (sellTokenAmount body) \<and> truthy (sellSolAmount body)
               \<and> mint st \<noteq> None \<and> tokenVault st \<noteq> None
               \<and> virtualSolReserves st \<noteq> 0 \<and> virtualTokenReserves st \<noteq> 0 \<longrightarrow>
             sell e body =
               (ErrorResponse 400 ''SOL amount exceeds available reserves.'', [FetchState a]))"
    if ex: "int (virtualSolReserves st) \<le> n * 1000000000"
  proof -
    note r = sellBySol_exceeding [OF assms(4) ex]
    have "\<exists>msg. fst (sell e body) = ErrorResponse 400 msg"
      using assms r by (auto simp: sell_def sellOnState_def split: option.splits)
    moreover have "\<not> (\<exists>ev \<in> set (snd (sell e body)). isConsoleLog ev)"
      using assms r by (auto simp: sell_def sellOnState_def split: option.splits)
    moreover have "sell e body =
        (ErrorResponse 400 ''SOL amount exceeds available reserves.'', [FetchState a])"
      if "\<not> truthy (sellTokenAmount body) \<and> truthy (sellSolAmount body)
               \<and> mint st \<noteq> None \<and> tokenVault st \<noteq> None
               \<and> virtualSolReserves st \<noteq> 0 \<and> virtualTokenReserves st \<noteq> 0"
      using assms r that by (auto simp: sell_def sellOnState_def split: option.splits)
    ultimately show ?thesis by blast
  qed
  have part2: "n * 1000000000 < int (virtualSolReserves st)
           \<and> (\<exists>bytes. encodeSellToken e
                  ((n * 1000000000 * int (virtualTokenReserves st))
                     sdiv (int (virtualSolReserves st) - n * 1000000000) sdiv 1000000)
                  = Inr bytes
                \<and> data ins = bufferToBase64 e bytes)"
    if b: "fst (sell e body) = SellBuilt ins" for ins
  proof -
    from b assms obtain m v amt evs where
      s: "sellBySol sa st = (Inr amt, evs)" and bb: "sellBuild e a s m v amt = SellBuilt ins"
      by (auto simp: sell_def sellOnState_def dest: sellBySol_Inl
          split: option.splits if_splits prod.splits sum.splits)
    from sellBySol_Inr [OF assms(4) s] sellBuild_SellBuilt [OF bb]
    show ?thesis by simp
  qed
  from part1 part2 show ?thesis by blast
qed

theorem sell_exceeding_reserves_rejected_witness:
  "sell (sampleEnv sampleState) (sampleSell None (Some (NumberVal (Finite 30)))) =
     (ErrorResponse 400 ''SOL amount exceeds available reserves.'', [FetchState ''State''])
   \<and> (\<exists>ins bytes.
         fst (sell (sampleEnv sampleState) (sampleSell None (Some (NumberVal (Finite 1)))))
           = SellBuilt ins
       \<and> encodeSellToken (sampleEnv sampleState) 37000000 = Inr bytes
       \<and> data ins = bufferToBase64 (sampleEnv sampleState) bytes)"
proof -
  let ?b = "sampleSell None (Some (NumberVal (Finite 30)))"
  have h1: "sellLaunchpadStateAddress ?b = Some ''State''"
    and h2: "sellSeller ?b = Some ''Seller''"
    and h3: "sellSolAmount ?b = Some (NumberVal (Finite 30))"
    by (simp_all add: sampleSell_def)
  have h4: "toBigInt (NumberVal (Finite 30)) = Inr 30"
    by (simp add: math_trunc_def)
  have h5: "fetchMaybeLaunchpadState (sampleEnv sampleState) ''State'' = Inr (Some sampleState)"
    by (simp add: sampleEnv_def)
  have h6: "int (virtualSolReserves sampleState) \<le> 30 * 1000000000"
    by (simp add: sampleState_def)
  have h7: "\<not> truthy (sellTokenAmount ?b) \<and> truthy (sellSolAmount ?b)
       \<and> mint sampleState \<noteq> None \<and> tokenVault sampleState \<noteq> None
       \<and> virtualSolReserves sampleState \<noteq> 0 \<and> virtualTokenReserves sampleState \<noteq> 0"
    by (simp add: sampleSell_def sampleState_def)
  note t = conjunct1 [OF sell_exceeding_reserves_rejected [OF h1 h2 h3 h4 h5]]
  from t h6 have "(\<not> truthy (sellTokenAmount ?b) \<and> truthy (sellSolAmount ?b)
       \<and> mint sampleState \<noteq> None \<and> tokenVault sampleState \<noteq> None
       \<and> virtualSolReserves sampleState \<noteq> 0 \<and> virtualTokenReserves sampleState \<noteq> 0 \<longrightarrow>
     sell (sampleEnv sampleState) ?b =
       (ErrorResponse 400 ''SOL amount exceeds available reserves.'', [FetchState ''State'']))"
    by blast
  with h7 have a: "sell (sampleEnv sampleState) ?b =
       (ErrorResponse 400 ''SOL amount exceeds available reserves.'', [FetchState ''State''])"
    by (rule rev_mp)
  let ?c = "sampleSell None (Some (NumberVal (Finite 1)))"
  have k1: "sellLaunchpadStateAddress ?c = Some ''State''"
    and k2: "sellSeller ?c = Some ''Seller''"
    and k3: "sellSolAmount ?c = Some (NumberVal (Finite 1))"
    by (simp_all add: sampleSell_def)
  have k4: "toBigInt (NumberVal (Finite 1)) = Inr 1"
    by (simp add: math_trunc_def)
  have "\<exists>ins. fst (sell (sampleEnv sampleState) ?c) = SellBuilt ins"
    by (simp add: sample_defs sell_defs)
  then obtain ins where i: "fst (sell (sampleEnv sampleState) ?c) = SellBuilt ins" ..
  have x: "int (virtualSolReserves sampleState) = 30000000000"
    and y: "int (virtualTokenReserves sampleState) = 1073000000000000"
    by (simp_all add: sampleState_def)
  have q: "(1 * 1000000000 * 1073000000000000) sdiv (30000000000 - 1 * 1000000000) sdiv 1000000
             = (37000000 :: int)"
    by (simp add: signed_divide_int_def)
  from conjunct2 [OF sell_exceeding_reserves_rejected [OF k1 k2 k3 k4 h5], rule_format, OF i]
  have "\<exists>bytes. encodeSellToken (sampleEnv sampleState) 37000000 = Inr bytes
           \<and> data ins = bufferToBase64 (sampleEnv sampleState) bytes"
    unfolding x y q by (rule conjunct2)
  with i have "\<exists>ins bytes.
         fst (sell (sampleEnv sampleState) ?c) = SellBuilt ins
       \<and> encodeSellToken (sampleEnv sampleState) 37000000 = Inr bytes
       \<and> data ins = bufferToBase64 (sampleEnv sampleState) bytes"
    by blast
  with a show ?thesis by (rule conjI)
qed

section \<open>The account lists\<close>

lemma buyBuild_keys:
  assumes "buyBuild e a b m v q r = BuyBuilt ins twd raw"
  shows "\<exists>la sv ata.
      getProgramDerivedAddress e (LAUNCHPAD_PROGRAM_ADDRESS e)
        [SeedText ''launchpad_authority'', SeedAddress a] = Inr la
    \<and> getProgramDerivedAddress e (LAUNCHPAD_PROGRAM_ADDRESS e)
        [SeedText ''sol_vault'', SeedAddress a] = Inr sv
    \<and> getAssociatedTokenAddress e m b = Inr ata
    \<and> programId ins = LAUNCHPAD_PROGRAM_ADDRESS e
    \<and> keys ins =
        [ \<lparr>pubkey = a, isSigner = False, isWritable = True\<rparr>,
          \<lparr>pubkey = la, isSigner = False, isWritable = False\<rparr>,
          \<lparr>pubkey = sv, isSigner = False, isWritable = True\<rparr>,
          \<lparr>pubkey = v, isSigner = False, isWritable = True\<rparr>,
          \<lparr>pubkey = m, isSigner = False, isWritable = True\<rparr>,
          \<lparr>pubkey = b, isSigner = True, isWritable = True\<rparr>,
          \<lparr>pubkey = ata, isSigner = False, isWritable = True\<rparr>,
          \<lparr>pubkey = ''11111111111111111111111111111111'', isSigner = False, isWritable = False\<rparr>,
          \<lparr>pubkey = TOKEN_PROGRAM_ID e, isSigner = False, isWritable = False\<rparr>,
          \<lparr>pubkey = ASSOCIATED_TOKEN_PROGRAM e, isSigner = False, isWritable = False\<rparr> ]"
  using assms
  by (auto simp: buyBuild_def buyTokenKeys_def SYSTEM_PROGRAM_ID_def split: sum.splits)

lemma sellBuild_keys:
  assumes "sellBuild e a s m v amt = SellBuilt ins"
  shows "\<exists>sv ata.
      getProgramDerivedAddress e (LAUNCHPAD_PROGRAM_ADDRESS e)
        [SeedText ''sol_vault'', SeedAddress a] = Inr sv
    \<and> getAssociatedTokenAddress e m s = Inr ata
    \<and> programId ins = LAUNCHPAD_PROGRAM_ADDRESS e
    \<and> keys ins =
        [ \<lparr>pubkey = a, isSigner = False, isWritable = True\<rparr>,
          \<lparr>pubkey = sv, isSigner = False, isWritable = True\<rparr>,
          \<lparr>pubkey = v, isSigner = False, isWritable = True\<rparr>,
          \<lparr>pubkey = m, isSigner = False, isWritable = True\<rparr>,
          \<lparr>pubkey = s, isSigner = True, isWritable = True\<rparr>,
          \<lparr>pubkey = ata, isSigner = False, isWritable = True\<rparr>,
          \<lparr>pubkey = ''11111111111111111111111111111111'', isSigner = False, isWritable = False\<rparr>,
          \<lparr>pubkey = TOKEN_PROGRAM_ID e, isSigner = False, isWritable = False\<rparr>,
          \<lparr>pubkey = ASSOCIATED_TOKEN_PROGRAM e, isSigner = False, isWritable = False\<rparr> ]"
  using assms
  by (auto simp: sellBuild_def sellTokenKeys_def SYSTEM_PROGRAM_ID_def split: sum.splits)


lemma buy_BuyBuilt:
  assumes "fst (buy e body) = BuyBuilt ins twd raw"
  shows "\<exists>a b st m v q r.
      buyLaunchpadStateAddress body = Some a \<and> buyBuyer body = Some b
    \<and> fetchMaybeLaunchpadState e a = Inr (Some st)
    \<and> mint st = Some m \<and> tokenVault st = Some v
    \<and> buyBuild e a b m v q r = BuyBuilt ins twd raw"
  using assms
  by (auto simp: buy_def buyOnState_def Let_def
      split: option.splits sum.splits prod.splits if_splits)

lemma sell_SellBuilt:
  assumes "fst (sell e body) = SellBuilt ins"
  shows "\<exists>a s st m v amt.
      sellLaunchpadStateAddress body = Some a \<and> sellSeller body = Some s
    \<and> fetchMaybeLaunchpadState e a = Inr (Some st)
    \<and> mint st = Some m \<and> tokenVault st = Some v
    \<and> sellBuild e a s m v amt = SellBuilt ins"
  using assms
  by (auto simp: sell_def sellOnState_def Let_def dest: sellBySol_Inl
      split: option.splits sum.splits prod.splits if_splits)

lemma graduate_SendAndConfirm:
  assumes "SendAndConfirm tx \<in> set (snd (graduate e body))"
  shows "\<exists>a d. requestedAddress body = Some a
    \<and> instructions tx =
        [ \<lparr>txProgramId = LAUNCHPAD_PROGRAM_ADDRESS e,
           txKeys = [ \<lparr>pubkey = a, isSigner = False, isWritable = True\<rparr>,
                      \<lparr>pubkey = platformAuthorityPublicKey e, isSigner = True, isWritable = True\<rparr> ],
           txData = d\<rparr> ]"
  using assms
  by (auto simp: graduate_def graduateInstruction_def Let_def
      split: option.splits sum.splits prod.splits if_splits)

text \<open>
  Claim C9. Every buy instruction lists, in this order, the state (writable), the
  launchpad authority derived from the state address (read-only), the SOL vault derived
  from it (writable), the token vault and the mint of the fetched account (writable), the
  buyer (signer, writable), the buyer's associated token account (writable), and the
  system, token and associated-token programs (read-only). Every sell instruction lists
  the same without the launchpad authority, with the seller for the buyer. Every
  transaction the graduate route submits holds one instruction whose accounts are the
  state (writable) and the platform authority (signer, writable).
\<close>

theorem instruction_account_lists:
  "(\<forall>ins twd raw. fst (buy e buyBody) = BuyBuilt ins twd raw \<longrightarrow>
      (\<exists>a b st m v la sv ata.
          buyLaunchpadStateAddress buyBody = Some a \<and> buyBuyer buyBody = Some b
        \<and> fetchMaybeLaunchpadState e a = Inr (Some st)
        \<and> mint st = Some m \<and> tokenVault st = Some v
        \<and> getProgramDerivedAddress e (LAUNCHPAD_PROGRAM_ADDRESS e)
            [SeedText ''launchpad_authority'', SeedAddress a] = Inr la
        \<and> getProgramDerivedAddress e (LAUNCHPAD_PROGRAM_ADDRESS e)
            [SeedText ''sol_vault'', SeedAddress a] = Inr sv
        \<and> getAssociatedTokenAddress e m b = Inr ata
        \<and> programId ins = LAUNCHPAD_PROGRAM_ADDRESS e
        \<and> keys ins =
            [ \<lparr>pubkey = a, isSigner = False, isWritable = True\<rparr>,
              \<lparr>pubkey = la, isSigner = False, isWritable = False\<rparr>,
              \<lparr>pubkey = sv, isSigner = False, isWritable = True\<rparr>,
              \<lparr>pubkey = v, isSigner = False, isWritable = True\<rparr>,
              \<lparr>pubkey = m, isSigner = False, isWritable = True\<rparr>,
              \<lparr>pubkey = b, isSigner = True, isWritable = True\<rparr>,
              \<lparr>pubkey = ata, isSigner = False, isWritable = True\<rparr>,
              \<lparr>pubkey = ''11111111111111111111111111111111'', isSigner = False,
                 isWritable = False\<rparr>,
              \<lparr>pubkey = TOKEN_PROGRAM_ID e, isSigner = False, isWritable = False\<rparr>,
              \<lparr>pubkey = ASSOCIATED_TOKEN_PROGRAM e, isSigner = False, isWritable = False\<rparr> ]))
 \<and> (\<forall>ins. fst (sell e sellBody) = SellBuilt ins \<longrightarrow>
      (\<exists>a s st m v sv ata.
          sellLaunchpadStateAddress sellBody = Some a \<and> sellSeller sellBody = Some s
        \<and> fetchMaybeLaunchpadState e a = Inr (Some st)
        \<and> mint st = Some m \<and> tokenVault st = Some v
        \<and> getProgramDerivedAddress e (LAUNCHPAD_PROGRAM_ADDRESS e)
            [SeedText ''sol_vault'', SeedAddress a] = Inr sv
        \<and> getAssociatedTokenAddress e m s = Inr ata
        \<and> programId ins = LAUNCHPAD_PROGRAM_ADDRESS e
        \<and> keys ins =
            [ \<lparr>pubkey = a, isSigner = False, isWritable = True\<rparr>,
              \<lparr>pubkey = sv, isSigner = False, isWritable = True\<rparr>,
              \<lparr>pubkey = v, isSigner = False, isWritable = True\<rparr>,
              \<lparr>pubkey = m, isSigner = False, isWritable = True\<rparr>,
              \<lparr>pubkey = s, isSigner = True, isWritable = True\<rparr>,
              \<lparr>pubkey = ata, isSigner = False, isWritable = True\<rparr>,
              \<lparr>pubkey = ''11111111111111111111111111111111'', isSigner = False,
                 isWritable = False\<rparr>,
              \<lparr>pubkey = TOKEN_PROGRAM_ID e, isSigner = False, isWritable = False\<rparr>,
              \<lparr>pubkey = ASSOCIATED_TOKEN_PROGRAM e, isSigner = False, isWritable = False\<rparr> ]))
 \<and> (\<forall>tx. SendAndConfirm tx \<in> set (snd (graduate e graduateBody)) \<longrightarrow>
      (\<exists>a d. requestedAddress graduateBody = Some a
        \<and> instructions tx =
            [ \<lparr>txProgramId = LAUNCHPAD_PROGRAM_ADDRESS e,
               txKeys = [ \<lparr>pubkey = a, isSigner = False, isWritable = True\<rparr>,
                          \<lparr>pubkey = platformAuthorityPublicKey e, isSigner = True,
                             isWritable = True\<rparr> ],
               txData = d\<rparr> ]))"
proof (intro conjI allI impI)
  fix ins twd raw
  assume "fst (buy e buyBody) = BuyBuilt ins twd raw"
  from buy_BuyBuilt [OF this] obtain a b st m v q r where
    f: "buyLaunchpadStateAddress buyBody = Some a" "buyBuyer buyBody = Some b"
       "fetchMaybeLaunchpadState e a = Inr (Some st)" "mint st = Some m" "tokenVault st = Some v"
    and bb: "buyBuild e a b m v q r = BuyBuilt ins twd raw"
    by blast
  from buyBuild_keys [OF bb] f
  show "\<exists>a b st m v la sv ata.
          buyLaunchpadStateAddress buyBody = Some a \<and> buyBuyer buyBody = Some b
        \<and> fetchMaybeLaunchpadState e a = Inr (Some st)
        \<and> mint st = Some m \<and> tokenVault st = Some v
        \<and> getProgramDerivedAddress e (LAUNCHPAD_PROGRAM_ADDRESS e)
            [SeedText ''launchpad_authority'', SeedAddress a] = Inr la
        \<and> getProgramDerivedAddress e (LAUNCHPAD_PROGRAM_ADDRESS e)
            [SeedText ''sol_vault'', SeedAddress a] = Inr sv
        \<and> getAssociatedTokenAddress e m b = Inr ata
        \<and> programId ins = LAUNCHPAD_PROGRAM_ADDRESS e
        \<and> keys ins =
            [ \<lparr>pubkey = a, isSigner = False, isWritable = True\<rparr>,
              \<lparr>pubkey = la, isSigner = False, isWritable = False\<rparr>,
              \<lparr>pubkey = sv, isSigner = False, isWritable = True\<rparr>,
              \<lparr>pubkey = v, isSigner = False, isWritable = True\<rparr>,
              \<lparr>pubkey = m, isSigner = False, isWritable = True\<rparr>,
              \<lparr>pubkey = b, isSigner = True, isWritable = True\<rparr>,
              \<lparr>pubkey = ata, isSigner = False, isWritable = True\<rparr>,
              \<lparr>pubkey = ''11111111111111111111111111111111'', isSigner = False,
                 isWritable = False\<rparr>,
              \<lparr>pubkey = TOKEN_PROGRAM_ID e, isSigner = False, isWritable = False\<rparr>,
              \<lparr>pubkey = ASSOCIATED_TOKEN_PROGRAM e, isSigner = False, isWritable = False\<rparr> ]"
    by blast
next
  fix ins
  assume "fst (sell e sellBody) = SellBuilt ins"
  from sell_SellBuilt [OF this] obtain a s st m v amt where
    f: "sellLaunchpadStateAddress sellBody = Some a" "sellSeller sellBody = Some s"
       "fetchMaybeLaunchpadState e a = Inr (Some st)" "mint st = Some m" "tokenVault st = Some v"
    and bb: "sellBuild e a s m v amt = SellBuilt ins"
    by blast
  from sellBuild_keys [OF bb] f
  show "\<exists>a s st m v sv ata.
          sellLaunchpadStateAddress sellBody = Some a \<and> sellSeller sellBody = Some s
        \<and> fetchMaybeLaunchpadState e a = Inr (Some st)
        \<and> mint st = Some m \<and> tokenVault st = Some v
        \<and> getProgramDerivedAddress e (LAUNCHPAD_PROGRAM_ADDRESS e)
            [SeedText ''sol_vault'', SeedAddress a] = Inr sv
        \<and> getAssociatedTokenAddress e m s = Inr ata
        \<and> programId ins = LAUNCHPAD_PROGRAM_ADDRESS e
        \<and> keys ins =
            [ \<lparr>pubkey = a, isSigner = False, isWritable = True\<rparr>,
              \<lparr>pubkey = sv, isSigner = False, isWritable = True\<rparr>,
              \<lparr>pubkey = v, isSigner = False, isWritable = True\<rparr>,
              \<lparr>pubkey = m, isSigner = False, isWritable = True\<rparr>,
              \<lparr>pubkey = s, isSigner = True, isWritable = True\<rparr>,
              \<lparr>pubkey = ata, isSigner = False, isWritable = True\<rparr>,
              \<lparr>pubkey = ''11111111111111111111111111111111'', isSigner = False,
                 isWritable = False\<rparr>,
              \<lparr>pubkey = TOKEN_PROGRAM_ID e, isSigner = False, isWritable = False\<rparr>,
              \<lparr>pubkey = ASSOCIATED_TOKEN_PROGRAM e, isSigner = False, isWritable = False\<rparr> ]"
    by blast
next
  fix tx
  assume "SendAndConfirm tx \<in> set (snd (graduate e graduateBody))"
  then show "\<exists>a d. requestedAddress graduateBody = Some a
        \<and> instructions tx =
            [ \<lparr>txProgramId = LAUNCHPAD_PROGRAM_ADDRESS e,
               txKeys = [ \<lparr>pubkey = a, isSigner = False, isWritable = True\<rparr>,
                          \<lparr>pubkey = platformAuthorityPublicKey e, isSigner = True,
                             isWritable = True\<rparr> ],
               txData = d\<rparr> ]"
    by (rule graduate_SendAndConfirm)
qed

theorem instruction_account_lists_witness:
  "(\<exists>ins. fst (buy (sampleEnv sampleState) (sampleBuy (NumberVal (Finite 1))))
            = BuyBuilt ins 34612903225806 34612903
         \<and> map pubkey (keys ins) =
             [''State'', ''launchpad_authorityState'', ''sol_vaultState'', ''TokenVault'',
              ''Mint'', ''Buyer'', ''MintBuyer'', ''11111111111111111111111111111111'',
              ''TokenkegQfeZyiNwAJbNbGKPFXCWuBvf9Ss623VQ5DA'',
              ''ATokenGPvbdGVxr1b2hvZbsiqW5xWH25efTNsLJA8knL'']
         \<and> map isSigner (keys ins) =
             [False, False, False, False, False, True, False, False, False, False]
         \<and> map isWritable (keys ins) =
             [True, False, True, True, True, True, True, False, False, False])
   \<and> (\<exists>ins. fst (sell (sampleEnv sampleState) (sampleSell (Some (BigIntVal 5)) None))
            = SellBuilt ins
         \<and> map pubkey (keys ins) =
             [''State'', ''sol_vaultState'', ''TokenVault'', ''Mint'', ''Seller'',
              ''MintSeller'', ''11111111111111111111111111111111'',
              ''TokenkegQfeZyiNwAJbNbGKPFXCWuBvf9Ss623VQ5DA'',
              ''ATokenGPvbdGVxr1b2hvZbsiqW5xWH25efTNsLJA8knL'']
         \<and> map isSigner (keys ins) =
             [False, False, False, False, True, False, False, False, False]
         \<and> map isWritable (keys ins) =
             [True, True, True, True, True, True, False, False, False])
   \<and> (\<exists>tx. SendAndConfirm tx
              \<in> set (snd (graduate (sampleEnv (sampleState\<lparr>status := Transition\<rparr>)) sampleRequest))
         \<and> map txKeys (instructions tx) =
             [ [ \<lparr>pubkey = ''State'', isSigner = False, isWritable = True\<rparr>,
                 \<lparr>pubkey = ''Platform'', isSigner = True, isWritable = True\<rparr> ] ])"
proof -
  let ?e = "sampleEnv sampleState" and ?b = "sampleBuy (NumberVal (Finite 1))"
  let ?s = "sampleSell (Some (BigIntVal 5)) None"
  let ?g = "sampleEnv (sampleState\<lparr>status := Transition\<rparr>)"
  have "\<exists>ins. fst (buy ?e ?b) = BuyBuilt ins 34612903225806 34612903"
    by (simp add: sample_defs buy_defs)
  then obtain ins where i: "fst (buy ?e ?b) = BuyBuilt ins 34612903225806 34612903" ..
  from conjunct1 [OF instruction_account_lists [where e = ?e and buyBody = ?b], rule_format, OF i]
  obtain a b st m v la sv ata where
      f: "buyLaunchpadStateAddress ?b = Some a" "buyBuyer ?b = Some b"
         "fetchMaybeLaunchpadState ?e a = Inr (Some st)"
         "mint st = Some m" "tokenVault st = Some v"
         "getProgramDerivedAddress ?e (LAUNCHPAD_PROGRAM_ADDRESS ?e)
            [SeedText ''launchpad_authority'', SeedAddress a] = Inr la"
         "getProgramDerivedAddress ?e (LAUNCHPAD_PROGRAM_ADDRESS ?e)
            [SeedText ''sol_vault'', SeedAddress a] = Inr sv"
         "getAssociatedTokenAddress ?e m b = Inr ata"
    and ks: "keys ins =
            [ \<lparr>pubkey = a, isSigner = False, isWritable = True\<rparr>,
              \<lparr>pubkey = la, isSigner = False, isWritable = False\<rparr>,
              \<lparr>pubkey = sv, isSigner = False, isWritable = True\<rparr>,
              \<lparr>pubkey = v, isSigner = False, isWritable = True\<rparr>,
              \<lparr>pubkey = m, isSigner = False, isWritable = True\<rparr>,
              \<lparr>pubkey = b, isSigner = True, isWritable = True\<rparr>,
              \<lparr>pubkey = ata, isSigner = False, isWritable = True\<rparr>,
              \<lparr>pubkey = ''11111111111111111111111111111111'', isSigner = False,
                 isWritable = False\<rparr>,
              \<lparr>pubkey = TOKEN_PROGRAM_ID ?e, isSigner = False, isWritable = False\<rparr>,
              \<lparr>pubkey = ASSOCIATED_TOKEN_PROGRAM ?e, isSigner = False, isWritable = False\<rparr> ]"
    by blast
  from f have "a = ''State''" "b = ''Buyer''" "m = ''Mint''" "v = ''TokenVault''"
      "la = ''launchpad_authorityState''" "sv = ''sol_vaultState''" "ata = ''MintBuyer''"
    by (auto simp: sample_defs)
  with ks have "map pubkey (keys ins) =
             [''State'', ''launchpad_authorityState'', ''sol_vaultState'', ''TokenVault'',
              ''Mint'', ''Buyer'', ''MintBuyer'', ''11111111111111111111111111111111'',
              ''TokenkegQfeZyiNwAJbNbGKPFXCWuBvf9Ss623VQ5DA'',
              ''ATokenGPvbdGVxr1b2hvZbsiqW5xWH25efTNsLJA8knL'']"
    "map isSigner (keys ins) =
             [False, False, False, False, False, True, False, False, False, False]"
    "map isWritable (keys ins) =
             [True, False, True, True, True, True, True, False, False, False]"
    by (simp_all add: sampleEnv_def)
  with i have buyPart: "\<exists>ins. fst (buy ?e ?b) = BuyBuilt ins 34612903225806 34612903
         \<and> map pubkey (keys ins) =
             [''State'', ''launchpad_authorityState'', ''sol_vaultState'', ''TokenVault'',
              ''Mint'', ''Buyer'', ''MintBuyer'', ''11111111111111111111111111111111'',
              ''TokenkegQfeZyiNwAJbNbGKPFXCWuBvf9Ss623VQ5DA'',
              ''ATokenGPvbdGVxr1b2hvZbsiqW5xWH25efTNsLJA8knL'']
         \<and> map isSigner (keys ins) =
             [False, False, False, False, False, True, False, False, False, False]
         \<and> map isWritable (keys ins) =
             [True, False, True, True, True, True, True, False, False, False]"
    by (intro exI [of _ ins]) simp
  have "\<exists>ins. fst (sell ?e ?s) = SellBuilt ins"
    by (simp add: sample_defs sell_defs)
  then obtain sins where si: "fst (sell ?e ?s) = SellBuilt sins" ..
  from conjunct1 [OF conjunct2 [OF instruction_account_lists [where e = ?e and sellBody = ?s]], rule_format, OF si]
  obtain a s st m v sv ata where
      f: "sellLaunchpadStateAddress ?s = Some a" "sellSeller ?s = Some s"
         "fetchMaybeLaunchpadState ?e a = Inr (Some st)"
         "mint st = Some m" "tokenVault st = Some v"
         "getProgramDerivedAddress ?e (LAUNCHPAD_PROGRAM_ADDRESS ?e)
            [SeedText ''sol_vault'', SeedAddress a] = Inr sv"
         "getAssociatedTokenAddress ?e m s = Inr ata"
    and ks: "keys sins =
            [ \<lparr>pubkey = a, isSigner = False, isWritable = True\<rparr>,
              \<lparr>pubkey = sv, isSigner = False, isWritable = True\<rparr>,
              \<lparr>pubkey = v, isSigner = False, isWritable = True\<rparr>,
              \<lparr>pubkey = m, isSigner = False, isWritable = True\<rparr>,
              \<lparr>pubkey = s, isSigner = True, isWritable = True\<rparr>,
              \<lparr>pubkey = ata, isSigner = False, isWritable = True\<rparr>,
              \<lparr>pubkey = ''11111111111111111111111111111111'', isSigner = False,
                 isWritable = False\<rparr>,
              \<lparr>pubkey = TOKEN_PROGRAM_ID ?e, isSigner = False, isWritable = False\<rparr>,
              \<lparr>pubkey = ASSOCIATED_TOKEN_PROGRAM ?e, isSigner = False, isWritable = False\<rparr> ]"
    by blast
  from f have "a = ''State''" "s = ''Seller''" "m = ''Mint''" "v = ''TokenVault''"
      "sv = ''sol_vaultState''" "ata = ''MintSeller''"
    by (auto simp: sample_defs)
  with ks have "map pubkey (keys sins) =
             [''State'', ''sol_vaultState'', ''TokenVault'', ''Mint'', ''Seller'',
              ''MintSeller'', ''11111111111111111111111111111111'',
              ''TokenkegQfeZyiNwAJbNbGKPFXCWuBvf9Ss623VQ5DA'',
              ''ATokenGPvbdGVxr1b2hvZbsiqW5xWH25efTNsLJA8knL'']"
    "map isSigner (keys sins) =
             [False, False, False, False, True, False, False, False, False]"
    "map isWritable (keys sins) =
             [True, True, True, True, True, True, False, False, False]"
    by (simp_all add: sampleEnv_def)
  with si have sellPart: "\<exists>ins. fst (sell ?e ?s) = SellBuilt ins
         \<and> map pubkey (keys ins) =
             [''State'', ''sol_vaultState'', ''TokenVault'', ''Mint'', ''Seller'',
              ''MintSeller'', ''11111111111111111111111111111111'',
              ''TokenkegQfeZyiNwAJbNbGKPFXCWuBvf9Ss623VQ5DA'',
              ''ATokenGPvbdGVxr1b2hvZbsiqW5xWH25efTNsLJA8knL'']
         \<and> map isSigner (keys ins) =
             [False, False, False, False, True, False, False, False, False]
         \<and> map isWritable (keys ins) =
             [True, True, True, True, True, True, False, False, False]"
    by (intro exI [of _ sins]) simp
  have "\<exists>tx. SendAndConfirm tx \<in> set (snd (graduate ?g sampleRequest))"
    by (simp add: graduate_def requestedAddress_def sample_defs)
  then obtain tx where ti: "SendAndConfirm tx \<in> set (snd (graduate ?g sampleRequest))" ..
  from conjunct2 [OF conjunct2 [OF instruction_account_lists [where e = ?g and graduateBody = sampleRequest]],
      rule_format, OF ti]
  obtain a d where
      g: "requestedAddress sampleRequest = Some a"
    and gi: "instructions tx =
            [ \<lparr>txProgramId = LAUNCHPAD_PROGRAM_ADDRESS ?g,
               txKeys = [ \<lparr>pubkey = a, isSigner = False, isWritable = True\<rparr>,
                          \<lparr>pubkey = platformAuthorityPublicKey ?g, isSigner = True,
                             isWritable = True\<rparr> ],
               txData = d\<rparr> ]"
    by blast
  from g have "a = ''State''" by (simp add: requestedAddress_def sampleRequest_def)
  with gi have "map txKeys (instructions tx) =
             [ [ \<lparr>pubkey = ''State'', isSigner = False, isWritable = True\<rparr>,
                 \<lparr>pubkey = ''Platform'', isSigner = True, isWritable = True\<rparr> ] ]"
    by (simp add: sampleEnv_def)
  with ti have gradPart: "\<exists>tx. SendAndConfirm tx \<in> set (snd (graduate ?g sampleRequest))
         \<and> map txKeys (instructions tx) =
             [ [ \<lparr>pubkey = ''State'', isSigner = False, isWritable = True\<rparr>,
                 \<lparr>pubkey = ''Platform'', isSigner = True, isWritable = True\<rparr> ] ]"
    by (intro exI [of _ tx]) simp
  from buyPart sellPart gradPart show ?thesis by (intro conjI)
qed

section \<open>The field \<open>k\<close>\<close>

lemma buyBuild_fetch_update:
  "buyBuild (e\<lparr>fetchMaybeLaunchpadState := f\<rparr>) a b m v q r = buyBuild e a b m v q r"
  by (simp add: buyBuild_def buyTokenKeys_def toBase64_def split: sum.splits)

lemma sellBuild_fetch_update:
  "sellBuild (e\<lparr>fetchMaybeLaunchpadState := f\<rparr>) a s m v amt = sellBuild e a s m v amt"
  by (simp add: sellBuild_def sellTokenKeys_def toBase64_def split: sum.splits)

lemma buyOnState_agree:
  assumes "sameSwapFields s t"
  shows "fst (buyOnState (e\<lparr>fetchMaybeLaunchpadState := f\<rparr>) a sa b t)
     = fst (buyOnState e a sa b s)
   \<and> filter (\<lambda>ev. \<not> isConsoleLog ev)
        (snd (buyOnState (e\<lparr>fetchMaybeLaunchpadState := f\<rparr>) a sa b t))
     = filter (\<lambda>ev. \<not> isConsoleLog ev) (snd (buyOnState e a sa b s))"
  using assms
  by (simp add: sameSwapFields_def buyOnState_def buyBuild_fetch_update Let_def
      split: option.splits sum.splits)

lemma sellBySol_agree:
  assumes "sameSwapFields s t"
  shows "fst (sellBySol sa t) = fst (sellBySol sa s)
   \<and> filter (\<lambda>ev. \<not> isConsoleLog ev) (snd (sellBySol sa t))
     = filter (\<lambda>ev. \<not> isConsoleLog ev) (snd (sellBySol sa s))"
  using assms
  by (simp add: sameSwapFields_def sellBySol_def Let_def split: option.splits sum.splits)

lemma sellOnState_agree:
  assumes "sameSwapFields s t"
  shows "fst (sellOnState (e\<lparr>fetchMaybeLaunchpadState := f\<rparr>) a ta sa sl t)
     = fst (sellOnState e a ta sa sl s)
   \<and> filter (\<lambda>ev. \<not> isConsoleLog ev)
        (snd (sellOnState (e\<lparr>fetchMaybeLaunchpadState := f\<rparr>) a ta sa sl t))
     = filter (\<lambda>ev. \<not> isConsoleLog ev) (snd (sellOnState e a ta sa sl s))"
proof (cases sa)
  case None
  with assms show ?thesis
    by (simp add: sameSwapFields_def sellOnState_def sellBuild_fetch_update
        split: option.splits sum.splits)
next
  case (Some amount)
  obtain r evs where p: "sellBySol amount s = (r, evs)" by (cases "sellBySol amount s")
  obtain r' evs' where p': "sellBySol amount t = (r', evs')" by (cases "sellBySol amount t")
  from sellBySol_agree [OF assms, where sa = amount] p p'
  have "r' = r" "filter (\<lambda>ev. \<not> isConsoleLog ev) evs' = filter (\<lambda>ev. \<not> isConsoleLog ev) evs"
    by simp_all
  with Some p p' assms show ?thesis
    by (simp add: sameSwapFields_def sellOnState_def sellBuild_fetch_update
        split: option.splits sum.splits)
qed

text \<open>
  Claim C10. Let the fetch return, instead of each account, any account that agrees
  with it on the two reserves, the mint and the token vault, with an arbitrary \<open>k\<close>
  (and arbitrary other fields). The answers of buy and sell to any request are the same:
  the same error or the same instruction, accounts and data. Their events are the same
  too, apart from the logged calculation, the one place where \<open>k\<close> appears.
\<close>

theorem k_is_not_used:
  assumes "\<forall>a. rel_sum (=) (rel_option sameSwapFields) (fetchMaybeLaunchpadState e a) (f a)"
  shows "fst (buy (e\<lparr>fetchMaybeLaunchpadState := f\<rparr>) buyBody) = fst (buy e buyBody)
 \<and> filter (\<lambda>ev. \<not> isConsoleLog ev) (snd (buy (e\<lparr>fetchMaybeLaunchpadState := f\<rparr>) buyBody))
     = filter (\<lambda>ev. \<not> isConsoleLog ev) (snd (buy e buyBody))
 \<and> fst (sell (e\<lparr>fetchMaybeLaunchpadState := f\<rparr>) sellBody) = fst (sell e sellBody)
 \<and> filter (\<lambda>ev. \<not> isConsoleLog ev) (snd (sell (e\<lparr>fetchMaybeLaunchpadState := f\<rparr>) sellBody))
     = filter (\<lambda>ev. \<not> isConsoleLog ev) (snd (sell e sellBody))"
proof -
  let ?e = "e\<lparr>fetchMaybeLaunchpadState := f\<rparr>"
  have rel: "rel_sum (=) (rel_option sameSwapFields) (fetchMaybeLaunchpadState e a) (f a)" for a
    using assms by blast
  have b: "fst (buy ?e buyBody) = fst (buy e buyBody)
     \<and> filter (\<lambda>ev. \<not> isConsoleLog ev) (snd (buy ?e buyBody))
       = filter (\<lambda>ev. \<not> isConsoleLog ev) (snd (buy e buyBody))"
  proof (cases "buyLaunchpadStateAddress buyBody")
    case None
    then show ?thesis by (simp add: buy_def)
  next
    case (Some a)
    note addr = this
    show ?thesis
    proof (cases "fetchMaybeLaunchpadState e a")
      case (Inl x)
      with rel [of a] have "f a = Inl x" by (cases "f a") simp_all
      with addr Inl show ?thesis by (simp add: buy_def split: option.splits)
    next
      case (Inr o1)
      with rel [of a] obtain o2 where fa: "f a = Inr o2" and r: "rel_option sameSwapFields o1 o2"
        by (cases "f a") simp_all
      show ?thesis
      proof (cases o1)
        case None
        with r have "o2 = None" by simp
        with addr Inr fa None show ?thesis by (simp add: buy_def split: option.splits)
      next
        case (Some s)
        with r obtain t where o2: "o2 = Some t" and st: "sameSwapFields s t"
          by (cases o2) simp_all
        from addr Inr fa Some o2 buyOnState_agree [OF st, where e = e and f = f]
        show ?thesis by (simp add: buy_def case_prod_beta split: option.splits)
      qed
    qed
  qed
  have s: "fst (sell ?e sellBody) = fst (sell e sellBody)
     \<and> filter (\<lambda>ev. \<not> isConsoleLog ev) (snd (sell ?e sellBody))
       = filter (\<lambda>ev. \<not> isConsoleLog ev) (snd (sell e sellBody))"
  proof (cases "sellLaunchpadStateAddress sellBody")
    case None
    then show ?thesis by (simp add: sell_def)
  next
    case (Some a)
    note addr = this
    show ?thesis
    proof (cases "fetchMaybeLaunchpadState e a")
      case (Inl x)
      with rel [of a] have "f a = Inl x" by (cases "f a") simp_all
      with addr Inl show ?thesis by (simp add: sell_def split: option.splits)
    next
      case (Inr o1)
      with rel [of a] obtain o2 where fa: "f a = Inr o2" and r: "rel_option sameSwapFields o1 o2"
        by (cases "f a") simp_all
      show ?thesis
      proof (cases o1)
        case None
        with r have "o2 = None" by simp
        with addr Inr fa None show ?thesis by (simp add: sell_def split: option.splits)
      next
        case (Some s)
        with r obtain t where o2: "o2 = Some t" and st: "sameSwapFields s t"
          by (cases o2) simp_all
        from addr Inr fa Some o2 sellOnState_agree [OF st, where e = e and f = f]
        show ?thesis by (simp add: sell_def case_prod_beta split: option.splits)
      qed
    qed
  qed
  from b s show ?thesis by simp
qed

theorem k_is_not_used_witness:
  "fst (buy (sampleEnv (sampleState\<lparr>k := 0\<rparr>)) (sampleBuy (NumberVal (Finite 1))))
     = fst (buy (sampleEnv sampleState) (sampleBuy (NumberVal (Finite 1))))
   \<and> fst (sell (sampleEnv (sampleState\<lparr>k := 0\<rparr>)) (sampleSell None (Some (NumberVal (Finite 1)))))
     = fst (sell (sampleEnv sampleState) (sampleSell None (Some (NumberVal (Finite 1)))))"
proof -
  let ?f = "\<lambda>a::string. (Inr (Some (sampleState\<lparr>k := 0\<rparr>)) :: js_exception + launchpad_state option)"
  have e: "(sampleEnv sampleState)\<lparr>fetchMaybeLaunchpadState := ?f\<rparr>
           = sampleEnv (sampleState\<lparr>k := 0\<rparr>)"
    by (simp add: sampleEnv_def)
  have h: "\<forall>a. rel_sum (=) (rel_option sameSwapFields)
             (fetchMaybeLaunchpadState (sampleEnv sampleState) a) (?f a)"
    by (simp add: sampleEnv_def sameSwapFields_def)
  note t = k_is_not_used [OF h, unfolded e]
  from conjunct1 [OF t] conjunct1 [OF conjunct2 [OF conjunct2 [OF t]]]
  show ?thesis by (rule conjI)
qed

section \<open>Decoding short buffers\<close>

lemma le_value_replicate_zero: "le_value (replicate n 0) = 0"
  by (induction n) simp_all

text \<open>
  Claim C8, as the code has it. Let \<open>len1\<close>, \<open>len2\<close>, \<open>len3\<close> be the three string lengths
  read at offsets 40, \<open>o1 = 44 + len1\<close> and \<open>o2 = o1 + 4 + len2\<close>. Decoding raises
  \<open>RangeError\<close> when the buffer ends before one of these three 4-byte reads. Once they
  are inside the buffer decoding never fails: each numeric field is the little-endian
  value of the bytes that a clipped slice finds at its offset, so a buffer that ends
  at or before the offset of \<open>tokensSoldRaw\<close> decodes with \<open>tokensSoldRaw = 0\<close>.
\<close>

theorem decode_short_buffer:
  "let len1 = le_value (take 4 (drop 40 buf)); o1 = 44 + len1;
       len2 = le_value (take 4 (drop o1 buf)); o2 = o1 + 4 + len2;
       len3 = le_value (take 4 (drop o2 buf)); o3 = o2 + 4 + len3 + 16
   in (length buf < 44 \<or> length buf < o1 + 4 \<or> length buf < o2 + 4 \<longrightarrow>
         decodeLaunchpadState buf = Inl RangeError)
    \<and> (o2 + 4 \<le> length buf \<longrightarrow>
         decodeLaunchpadState buf =
           Inr \<lparr>tokensSoldRaw = le_value (take 8 (drop (o3 + 32) buf)),
                initialPriceLamports = le_value (take 8 (drop o3 buf)),
                slope = le_value (take 16 (drop (o3 + 8) buf))\<rparr>)
    \<and> (o2 + 4 \<le> length buf \<and> length buf \<le> o3 + 32 \<longrightarrow>
         (\<exists>d. decodeLaunchpadState buf = Inr d \<and> tokensSoldRaw d = 0))"
  by (auto simp: decodeLaunchpadState_def readUInt32LE_def slice_def BN_le_def Let_def
      add.commute add.left_commute)

theorem decode_short_buffer_witness:
  "decodeLaunchpadState (replicate 43 0) = Inl RangeError
   \<and> decodeLaunchpadState (replicate 52 0) =
       Inr \<lparr>tokensSoldRaw = 0, initialPriceLamports = 0, slope = 0\<rparr>"
proof -
  have a: "decodeLaunchpadState (replicate 43 0) = Inl RangeError"
    using decode_short_buffer [of "replicate 43 0"] by (simp add: Let_def)
  have b: "decodeLaunchpadState (replicate 52 0) =
       Inr \<lparr>tokensSoldRaw = 0, initialPriceLamports = 0, slope = 0\<rparr>"
    using decode_short_buffer [of "replicate 52 0"]
    by (simp add: Let_def le_value_replicate_zero)
  from a b show ?thesis by (rule conjI)
qed

text \<open>
  Claim C8 as stated fails: a buffer of 101 bytes, seven short of the end of the
  \<open>tokensSoldRaw\<close> field, decodes without error, the one byte present read as the value.
\<close>

theorem decode_short_buffer_counterexample:
  "length (replicate 100 (0 :: 8 word) @ [7]) < 108
   \<and> decodeLaunchpadState (replicate 100 0 @ [7]) =
       Inr \<lparr>tokensSoldRaw = 7, initialPriceLamports = 0, slope = 0\<rparr>"
  by (simp add: decodeLaunchpadState_def readUInt32LE_def slice_def BN_le_def Let_def
      le_value_replicate_zero)

end
